theory Spec2Isabelle
  imports Complex_Main
begin

section \<open>Data model\<close>

text \<open>
  The failover agent of \<^verbatim>\<open>monitor.py\<close>, \<^verbatim>\<open>main.py\<close> and \<^verbatim>\<open>config.py\<close>.
  Python's unbounded integers are \<^typ>\<open>int\<close>. The readings of \<^verbatim>\<open>time.time()\<close> and
  every timestamp derived from them are \<^typ>\<open>real\<close>: the code only subtracts and compares
  them, and the rounding of a float subtraction is left out of the model.
\<close>

datatype ServerRole = PRIMARY | BACKUP

record ServerConfig =
  name :: string
  containers :: "string list"
  endpoint :: string
  port :: int

text \<open>
  \<^verbatim>\<open>GeneralConfig\<close> of \<^verbatim>\<open>config.py\<close>. Its fields carry the suffix \<open>_cfg\<close>, since
  \<^verbatim>\<open>ContainerMonitor\<close> and \<^verbatim>\<open>HeartbeatMonitor\<close> have attributes of the same names.
\<close>

record GeneralConfig =
  heartbeat_interval_cfg :: int
  check_heartbeat_interval_cfg :: int
  heartbeat_timeout_cfg :: int
  startup_grace_period_cfg :: int
  restart_grace_period_cfg :: int

definition GENERAL_CONFIG :: GeneralConfig where
  "GENERAL_CONFIG =
     \<lparr> heartbeat_interval_cfg = 5,
       check_heartbeat_interval_cfg = 5,
       heartbeat_timeout_cfg = 20,
       startup_grace_period_cfg = 20,
       restart_grace_period_cfg = 30 \<rparr>"

definition SERVER1_CONFIG :: ServerConfig where
  "SERVER1_CONFIG =
     \<lparr> name = ''server1'',
       containers = [''container-1'', ''container-2''],
       endpoint = ''http://172.17.92.9:8000'',
       port = 8000 \<rparr>"

definition SERVER2_CONFIG :: ServerConfig where
  "SERVER2_CONFIG =
     \<lparr> name = ''server2'',
       containers = [''container-1'', ''container-2''],
       endpoint = ''http://172.17.92.20:8000'',
       port = 8000 \<rparr>"

text \<open>
  The attributes of \<^verbatim>\<open>ContainerMonitor\<close> that the claims read or write. The Docker
  client and the logger are the outside world and are modelled below.
  \<^verbatim>\<open>container_down_times\<close> is a \<^verbatim>\<open>defaultdict(float)\<close>: a map whose subscript read of
  a missing key stores and returns \<open>0.0\<close> (\<open>defaultdict_getitem\<close>), while \<^verbatim>\<open>in\<close>,
  \<^verbatim>\<open>del\<close> and subscript assignment work as on a plain dict.
\<close>

record ContainerMonitor =
  server_name :: string
  other_server_url :: string
  role :: ServerRole
  startup_grace_period :: int
  restart_grace_period :: int
  container_start_time :: real
  container_down_times :: "string \<rightharpoonup> real"

definition ContainerMonitor_init :: "string \<Rightarrow> string \<Rightarrow> ServerRole \<Rightarrow> ContainerMonitor" where
  "ContainerMonitor_init sn url initial_role =
     \<lparr> server_name = sn,
       other_server_url = url,
       role = initial_role,
       startup_grace_period = startup_grace_period_cfg GENERAL_CONFIG,
       restart_grace_period = restart_grace_period_cfg GENERAL_CONFIG,
       container_start_time = 0,
       container_down_times = Map.empty \<rparr>"

definition defaultdict_getitem :: "(string \<rightharpoonup> real) \<Rightarrow> string \<Rightarrow> real \<times> (string \<rightharpoonup> real)" where
  "defaultdict_getitem m k = (case m k of Some v \<Rightarrow> (v, m) | None \<Rightarrow> (0, m(k \<mapsto> 0)))"

text \<open>
  The attributes of \<^verbatim>\<open>HeartbeatMonitor\<close>. Its \<^verbatim>\<open>monitor\<close> attribute is a reference to
  the one \<^verbatim>\<open>ContainerMonitor\<close> of the process, which every loop shares: the operations
  below take that \<^typ>\<open>ContainerMonitor\<close> as an argument and return it updated. The
  threads and the failover lock are not modelled: every operation runs alone.
\<close>

record HeartbeatMonitor =
  config :: ServerConfig
  last_heartbeat :: real
  heartbeat_interval :: int
  check_heartbeat_interval :: int
  heartbeat_timeout :: int

definition HeartbeatMonitor_init :: "ServerConfig \<Rightarrow> HeartbeatMonitor" where
  "HeartbeatMonitor_init cfg =
     \<lparr> config = cfg,
       last_heartbeat = 0,
       heartbeat_interval = heartbeat_interval_cfg GENERAL_CONFIG,
       check_heartbeat_interval = check_heartbeat_interval_cfg GENERAL_CONFIG,
       heartbeat_timeout = heartbeat_timeout_cfg GENERAL_CONFIG \<rparr>"

section \<open>The outside world\<close>

text \<open>
  What \<^verbatim>\<open>docker_client.containers.get\<close> answers: a handle, whose \<^verbatim>\<open>status\<close>
  attribute is the string carried by \<open>Found\<close>, or \<^verbatim>\<open>docker.errors.NotFound\<close>, or any
  other exception. What \<^verbatim>\<open>requests.post\<close> answers: a response with its status code,
  or an exception.
\<close>

datatype get_result = Found string | NotFound | GetError

datatype post_result = Response int | PostError

text \<open>The calls issued to the workload driver and to the peer, in the order made.\<close>

datatype event =
    Get string get_result
  | Stop string bool
  | Start string bool
  | Post post_result

text \<open>
  The environment decides the answer of every external call. Calls are numbered in the
  order the program makes them; \<open>lag e n\<close> is the time the \<open>n\<close>-th call takes, and
  the other fields are the answer the \<open>n\<close>-th call gets if it is of that kind. Any
  sequence of answers and clock readings is some environment.
\<close>

record env =
  lag :: "nat \<Rightarrow> real"
  get_answer :: "nat \<Rightarrow> string \<Rightarrow> get_result"
  stop_raises :: "nat \<Rightarrow> string \<Rightarrow> bool"
  start_raises :: "nat \<Rightarrow> string \<Rightarrow> bool"
  post_answer :: "nat \<Rightarrow> post_result"

record world =
  now :: real
  tick :: nat
  trace :: "event list"

definition elapse :: "env \<Rightarrow> real \<Rightarrow> world \<Rightarrow> world" where
  "elapse e d w = w\<lparr> now := now w + d + lag e (tick w), tick := Suc (tick w) \<rparr>"

definition time_time :: "env \<Rightarrow> world \<Rightarrow> real \<times> world" where
  "time_time e w = (let w1 = elapse e 0 w in (now w1, w1))"

definition time_sleep :: "env \<Rightarrow> real \<Rightarrow> world \<Rightarrow> world" where
  "time_sleep e d w = elapse e d w"

definition docker_get :: "env \<Rightarrow> string \<Rightarrow> world \<Rightarrow> get_result \<times> world" where
  "docker_get e cn w =
     (let r = get_answer e (tick w) cn
      in (r, (elapse e 0 w)\<lparr> trace := trace w @ [Get cn r] \<rparr>))"

definition container_stop :: "env \<Rightarrow> string \<Rightarrow> world \<Rightarrow> bool \<times> world" where
  "container_stop e cn w =
     (let ok = \<not> stop_raises e (tick w) cn
      in (ok, (elapse e 0 w)\<lparr> trace := trace w @ [Stop cn ok] \<rparr>))"

definition container_start :: "env \<Rightarrow> string \<Rightarrow> world \<Rightarrow> bool \<times> world" where
  "container_start e cn w =
     (let ok = \<not> start_raises e (tick w) cn
      in (ok, (elapse e 0 w)\<lparr> trace := trace w @ [Start cn ok] \<rparr>))"

definition requests_post :: "env \<Rightarrow> world \<Rightarrow> post_result \<times> world" where
  "requests_post e w =
     (let r = post_answer e (tick w)
      in (r, (elapse e 0 w)\<lparr> trace := trace w @ [Post r] \<rparr>))"

section \<open>ContainerMonitor\<close>

text \<open>\<^verbatim>\<open>should_check_container\<close>, monitor.py lines 45-65.\<close>

definition should_check_container :: "env \<Rightarrow> string \<Rightarrow> ContainerMonitor \<Rightarrow> world \<Rightarrow> bool \<times> world" where
  "should_check_container e cn s w =
     (case time_time e w of (t, w1) \<Rightarrow>
        let time_since_start = t - container_start_time s in
        if time_since_start < real_of_int (startup_grace_period s) then (False, w1)
        else (case docker_get e cn w1 of
                (Found st, w2) \<Rightarrow> (True, w2)
              | (NotFound, w2) \<Rightarrow> (False, w2)
              | (GetError, w2) \<Rightarrow> (False, w2)))"

text \<open>\<^verbatim>\<open>get_container_status\<close>, monitor.py lines 69-91.\<close>

definition get_container_status ::
  "env \<Rightarrow> string \<Rightarrow> ContainerMonitor \<Rightarrow> world \<Rightarrow> bool \<times> ContainerMonitor \<times> world" where
  "get_container_status e cn s w =
     (case docker_get e cn w of
        (Found st, w1) \<Rightarrow>
          let is_running = (st = ''running'') in
          if is_running then
            (if cn \<in> dom (container_down_times s)
             then (is_running, s\<lparr> container_down_times := (container_down_times s)(cn := None) \<rparr>, w1)
             else (is_running, s, w1))
          else
            (if cn \<notin> dom (container_down_times s)
             then (case time_time e w1 of (t, w2) \<Rightarrow>
                     (is_running, s\<lparr> container_down_times := (container_down_times s)(cn \<mapsto> t) \<rparr>, w2))
             else (is_running, s, w1))
      | (NotFound, w1) \<Rightarrow> (False, s, w1)
      | (GetError, w1) \<Rightarrow> (False, s, w1))"

text \<open>
  \<^verbatim>\<open>verify_container_health\<close>, monitor.py lines 168-196, in its three parts.
  \<open>verify_grace\<close> is the test of lines 173-177: \<open>True\<close> when the function returns
  \<open>True\<close> there. \<open>verify_checks\<close> is the loop of lines 183-188 over
  \<^verbatim>\<open>range(consecutive_checks)\<close>: \<open>True\<close> when a poll reported running and the function
  returned, \<open>False\<close> when the loop ran to its end. \<open>verify_recheck\<close> is lines 191-196.
\<close>

definition verify_grace :: "env \<Rightarrow> string \<Rightarrow> ContainerMonitor \<Rightarrow> world \<Rightarrow> bool \<times> world" where
  "verify_grace e cn s w =
     (if cn \<in> dom (container_down_times s) then
        (case time_time e w of (t, w1) \<Rightarrow>
           let time_since_down = t - fst (defaultdict_getitem (container_down_times s) cn) in
           if time_since_down < real_of_int (restart_grace_period s) then (True, w1)
           else (False, w1))
      else (False, w))"

fun verify_checks ::
  "env \<Rightarrow> nat \<Rightarrow> nat list \<Rightarrow> string \<Rightarrow> ContainerMonitor \<Rightarrow> world \<Rightarrow> bool \<times> ContainerMonitor \<times> world" where
  "verify_checks e consecutive_checks [] cn s w = (False, s, w)"
| "verify_checks e consecutive_checks (i # is) cn s w =
     (case get_container_status e cn s w of (r, s1, w1) \<Rightarrow>
        if r then (True, s1, w1)
        else verify_checks e consecutive_checks is cn s1
               (if i < consecutive_checks - 1 then time_sleep e 5 w1 else w1))"

definition verify_recheck ::
  "env \<Rightarrow> string \<Rightarrow> ContainerMonitor \<Rightarrow> world \<Rightarrow> bool \<times> ContainerMonitor \<times> world" where
  "verify_recheck e cn s w =
     (case time_time e w of (t, w1) \<Rightarrow>
        case defaultdict_getitem (container_down_times s) cn of (d, m) \<Rightarrow>
          let time_since_down = t - d; s1 = s\<lparr> container_down_times := m \<rparr> in
          if time_since_down \<ge> real_of_int (restart_grace_period s) then (False, s1, w1)
          else (True, s1, w1))"

definition verify_container_health ::
  "env \<Rightarrow> string \<Rightarrow> ContainerMonitor \<Rightarrow> world \<Rightarrow> bool \<times> ContainerMonitor \<times> world" where
  "verify_container_health e cn s w =
     (case verify_grace e cn s w of (g, w1) \<Rightarrow>
        if g then (True, s, w1)
        else (let consecutive_checks = 3 in
              case verify_checks e consecutive_checks [0..<consecutive_checks] cn s w1 of (r, s2, w2) \<Rightarrow>
                if r then (True, s2, w2)
                else verify_recheck e cn s2 w2))"

text \<open>
  \<^verbatim>\<open>wait_for_containers_startup\<close>, monitor.py lines 93-114. \<open>all_running_sweep\<close>
  is the inner \<^verbatim>\<open>for\<close> loop with its \<^verbatim>\<open>break\<close>, \<open>wait_loop\<close> the \<^verbatim>\<open>while\<close>
  loop. The loop ends only when the clock says so, hence it is a partial function:
  \<open>None\<close> stands for a loop that never returns.
\<close>

fun all_running_sweep ::
  "env \<Rightarrow> string list \<Rightarrow> ContainerMonitor \<Rightarrow> world \<Rightarrow> bool \<times> ContainerMonitor \<times> world" where
  "all_running_sweep e [] s w = (True, s, w)"
| "all_running_sweep e (cn # cs) s w =
     (case get_container_status e cn s w of (r, s1, w1) \<Rightarrow>
        if \<not> r then (False, s1, w1)
        else all_running_sweep e cs s1 w1)"

partial_function (option) wait_loop ::
  "env \<Rightarrow> string list \<Rightarrow> int \<Rightarrow> real \<Rightarrow> ContainerMonitor \<Rightarrow> world \<Rightarrow> (bool \<times> ContainerMonitor \<times> world) option" where
  "wait_loop e cs timeout start_time s w =
     (case time_time e w of (t, w1) \<Rightarrow>
        if t - start_time < real_of_int timeout then
          (case all_running_sweep e cs s w1 of (all_running, s2, w2) \<Rightarrow>
             if all_running then Some (True, s2, w2)
             else wait_loop e cs timeout start_time s2 (time_sleep e 10 w2))
        else Some (False, s, w1))"

definition wait_for_containers_startup ::
  "env \<Rightarrow> string list \<Rightarrow> int \<Rightarrow> ContainerMonitor \<Rightarrow> world \<Rightarrow> (bool \<times> ContainerMonitor \<times> world) option" where
  "wait_for_containers_startup e cs timeout s w =
     (case time_time e w of (start_time, w1) \<Rightarrow> wait_loop e cs timeout start_time s w1)"

text \<open>
  \<^verbatim>\<open>stop_all_containers\<close>, monitor.py lines 116-125: \<open>False\<close> as soon as a
  \<^verbatim>\<open>get\<close> or a \<^verbatim>\<open>stop\<close> raises.
\<close>

fun stop_all_containers :: "env \<Rightarrow> string list \<Rightarrow> world \<Rightarrow> bool \<times> world" where
  "stop_all_containers e [] w = (True, w)"
| "stop_all_containers e (cn # cs) w =
     (case docker_get e cn w of
        (Found st, w1) \<Rightarrow>
          (case container_stop e cn w1 of (ok, w2) \<Rightarrow>
             if ok then stop_all_containers e cs w2 else (False, w2))
      | (NotFound, w1) \<Rightarrow> (False, w1)
      | (GetError, w1) \<Rightarrow> (False, w1))"

text \<open>
  \<^verbatim>\<open>start_all_containers\<close>, monitor.py lines 127-141. \<open>start_loop\<close> is the
  \<^verbatim>\<open>for\<close> loop of lines 129-132: \<open>False\<close> when a \<^verbatim>\<open>get\<close> or a \<^verbatim>\<open>start\<close> raised.
  The wait uses its default timeout of 300.
\<close>

fun start_loop :: "env \<Rightarrow> string list \<Rightarrow> world \<Rightarrow> bool \<times> world" where
  "start_loop e [] w = (True, w)"
| "start_loop e (cn # cs) w =
     (case docker_get e cn w of
        (Found st, w1) \<Rightarrow>
          (case container_start e cn w1 of (ok, w2) \<Rightarrow>
             if ok then start_loop e cs w2 else (False, w2))
      | (NotFound, w1) \<Rightarrow> (False, w1)
      | (GetError, w1) \<Rightarrow> (False, w1))"

definition start_all_containers ::
  "env \<Rightarrow> string list \<Rightarrow> ContainerMonitor \<Rightarrow> world \<Rightarrow> (bool \<times> ContainerMonitor \<times> world) option" where
  "start_all_containers e cs s w =
     (case start_loop e cs w of (started, w1) \<Rightarrow>
        if started then
          (case time_time e w1 of (t, w2) \<Rightarrow>
             wait_for_containers_startup e cs 300 (s\<lparr> container_start_time := t \<rparr>) w2)
        else Some (False, s, w1))"

text \<open>\<^verbatim>\<open>notify_other_server\<close>, monitor.py lines 143-152.\<close>

definition notify_other_server :: "env \<Rightarrow> world \<Rightarrow> bool \<times> world" where
  "notify_other_server e w =
     (case requests_post e w of
        (Response status_code, w1) \<Rightarrow> (status_code = 200, w1)
      | (PostError, w1) \<Rightarrow> (False, w1))"

text \<open>\<^verbatim>\<open>become_backup\<close> and \<^verbatim>\<open>become_primary\<close>, monitor.py lines 154-165.\<close>

definition become_backup :: "env \<Rightarrow> string list \<Rightarrow> ContainerMonitor \<Rightarrow> world \<Rightarrow> ContainerMonitor \<times> world" where
  "become_backup e cs s w =
     (let s1 = s\<lparr> role := BACKUP \<rparr> in
      case stop_all_containers e cs w of (stopped, w1) \<Rightarrow> (s1, w1))"

definition become_primary ::
  "env \<Rightarrow> string list \<Rightarrow> ContainerMonitor \<Rightarrow> world \<Rightarrow> (bool \<times> ContainerMonitor \<times> world) option" where
  "become_primary e cs s w = start_all_containers e cs (s\<lparr> role := PRIMARY \<rparr>) w"

section \<open>HeartbeatMonitor\<close>

text \<open>\<^verbatim>\<open>initiate_failover\<close>, main.py lines 24-37.\<close>

definition initiate_failover ::
  "env \<Rightarrow> HeartbeatMonitor \<Rightarrow> ContainerMonitor \<Rightarrow> world \<Rightarrow> (bool \<times> ContainerMonitor \<times> world) option" where
  "initiate_failover e hb s w =
     (if role s = BACKUP then
        (case become_primary e (containers (config hb)) s w of
           None \<Rightarrow> None
         | Some (r, s1, w1) \<Rightarrow> if r then Some (True, s1, w1) else Some (False, s1, w1))
      else Some (False, s, w))"

text \<open>
  One iteration of the \<^verbatim>\<open>while\<close> loop of \<^verbatim>\<open>check_heartbeat\<close>, main.py lines 57-65.
\<close>

definition check_heartbeat_iteration ::
  "env \<Rightarrow> HeartbeatMonitor \<Rightarrow> ContainerMonitor \<Rightarrow> world \<Rightarrow> (ContainerMonitor \<times> world) option" where
  "check_heartbeat_iteration e hb s w =
     (case
        (if role s = BACKUP then
           (case time_time e w of (current_time, w1) \<Rightarrow>
              if last_heartbeat hb > 0 then
                (let time_since_last_heartbeat = current_time - last_heartbeat hb in
                 if time_since_last_heartbeat > real_of_int (heartbeat_timeout hb) then
                   (case initiate_failover e hb s w1 of
                      None \<Rightarrow> None
                    | Some (r, s2, w2) \<Rightarrow> Some (s2, w2))
                 else Some (s, w1))
              else Some (s, w1))
         else Some (s, w))
      of None \<Rightarrow> None
       | Some (s3, w3) \<Rightarrow> Some (s3, time_sleep e (real_of_int (check_heartbeat_interval hb)) w3))"

text \<open>
  The \<^verbatim>\<open>/heartbeat\<close> handler of main.py, lines 127-135. The request body is a
  dict of strings; a missing or empty \<^verbatim>\<open>server\<close> field raises
  \<^verbatim>\<open>HTTPException\<close> with status 400 before anything is stored, otherwise the clock
  reading becomes \<open>last_heartbeat\<close> and the handler answers with its message.
\<close>

datatype HTTPException = HTTPException int string

definition receive_heartbeat ::
  "env \<Rightarrow> (string \<rightharpoonup> string) \<Rightarrow> HeartbeatMonitor \<Rightarrow> world
     \<Rightarrow> (HTTPException + (string \<rightharpoonup> string)) \<times> HeartbeatMonitor \<times> world" where
  "receive_heartbeat e request hb w =
     (let server_name = request ''server'' in
      if server_name = None \<or> server_name = Some []
      then (Inl (HTTPException 400 ''Server name required''), hb, w)
      else (case time_time e w of (t, w1) \<Rightarrow>
              (Inr [''message'' \<mapsto> ''Heartbeat received''], hb\<lparr> last_heartbeat := t \<rparr>, w1)))"

section \<open>The health loops\<close>

text \<open>
  The primary-side failure path: main.py lines 152-162 and, without the lock, monitor.py
  lines 222-232.
\<close>

definition primary_failure_path ::
  "env \<Rightarrow> string list \<Rightarrow> ContainerMonitor \<Rightarrow> world \<Rightarrow> ContainerMonitor \<times> world" where
  "primary_failure_path e cs s w =
     (case stop_all_containers e cs w of (stopped, w1) \<Rightarrow>
        if stopped then
          (case notify_other_server e w1 of (notified, w2) \<Rightarrow>
             if notified then become_backup e cs s w2
             else (s, w2))
        else (s, w1))"

text \<open>
  \<^verbatim>\<open>monitor_containers_wrapper\<close>, main.py lines 138-164. \<open>wrapper_body\<close> is the body
  of the \<^verbatim>\<open>for\<close> loop for one workload (lines 143-162), \<open>wrapper_for\<close> the
  \<^verbatim>\<open>for\<close> loop over \<^verbatim>\<open>config.containers\<close>, and \<open>monitor_containers_wrapper_cycle\<close>
  one iteration of the \<^verbatim>\<open>while True\<close> loop.
\<close>

definition wrapper_body ::
  "env \<Rightarrow> string list \<Rightarrow> string \<Rightarrow> ContainerMonitor \<Rightarrow> world \<Rightarrow> ContainerMonitor \<times> world" where
  "wrapper_body e all_cs cn s w =
     (case should_check_container e cn s w of (chk, w1) \<Rightarrow>
        if \<not> chk then (s, w1)
        else (case get_container_status e cn s w1 of (running, s2, w2) \<Rightarrow>
                if \<not> running then
                  (case verify_container_health e cn s2 w2 of (healthy, s3, w3) \<Rightarrow>
                     if \<not> healthy then primary_failure_path e all_cs s3 w3
                     else (s3, w3))
                else (s2, w2)))"

fun wrapper_for ::
  "env \<Rightarrow> string list \<Rightarrow> string list \<Rightarrow> ContainerMonitor \<Rightarrow> world \<Rightarrow> ContainerMonitor \<times> world" where
  "wrapper_for e all_cs [] s w = (s, w)"
| "wrapper_for e all_cs (cn # rest) s w =
     (case wrapper_body e all_cs cn s w of (s1, w1) \<Rightarrow> wrapper_for e all_cs rest s1 w1)"

definition monitor_containers_wrapper_cycle ::
  "env \<Rightarrow> ServerConfig \<Rightarrow> ContainerMonitor \<Rightarrow> world \<Rightarrow> ContainerMonitor \<times> world" where
  "monitor_containers_wrapper_cycle e cfg s w =
     (case (if role s = PRIMARY then wrapper_for e (containers cfg) (containers cfg) s w
            else (s, w))
      of (s1, w1) \<Rightarrow> (s1, time_sleep e 10 w1))"

text \<open>
  \<^verbatim>\<open>ContainerMonitor.monitor_containers\<close>, monitor.py lines 198-234: \<open>monitor_body\<close> is
  the body of its \<^verbatim>\<open>for\<close> loop (lines 218-232), \<open>monitor_for\<close> the loop, and
  \<open>monitor_containers_cycle\<close> one iteration of the \<^verbatim>\<open>while True\<close> loop (lines 208-234).
\<close>

definition monitor_body ::
  "env \<Rightarrow> string list \<Rightarrow> string \<Rightarrow> ContainerMonitor \<Rightarrow> world \<Rightarrow> ContainerMonitor \<times> world" where
  "monitor_body e all_cs cn s w =
     (case verify_container_health e cn s w of (healthy, s1, w1) \<Rightarrow>
        if \<not> healthy then primary_failure_path e all_cs s1 w1
        else (s1, w1))"

fun monitor_for ::
  "env \<Rightarrow> string list \<Rightarrow> string list \<Rightarrow> ContainerMonitor \<Rightarrow> world \<Rightarrow> ContainerMonitor \<times> world" where
  "monitor_for e all_cs [] s w = (s, w)"
| "monitor_for e all_cs (cn # rest) s w =
     (case monitor_body e all_cs cn s w of (s1, w1) \<Rightarrow> monitor_for e all_cs rest s1 w1)"

definition monitor_containers_cycle ::
  "env \<Rightarrow> string list \<Rightarrow> ContainerMonitor \<Rightarrow> world \<Rightarrow> ContainerMonitor \<times> world" where
  "monitor_containers_cycle e cs s w =
     (if role s = PRIMARY then
        (case time_time e w of (t, w1) \<Rightarrow>
           let time_since_start = t - container_start_time s in
           if time_since_start < real_of_int (startup_grace_period s)
           then (s, time_sleep e 30 w1)
           else (case monitor_for e cs cs s w1 of (s2, w2) \<Rightarrow> (s2, time_sleep e 50 w2)))
      else (s, time_sleep e 50 w))"

section \<open>Reading the trace\<close>

text \<open>The number of requests sent to the peer so far.\<close>

fun is_post :: "event \<Rightarrow> bool" where
  "is_post (Post r) = True"
| "is_post (Get cn g) = False"
| "is_post (Stop cn ok) = False"
| "is_post (Start cn ok) = False"

definition posts :: "world \<Rightarrow> nat" where
  "posts w = length (filter is_post (trace w))"

text \<open>
  \<open>follows w w'\<close>: the world \<open>w'\<close> is reached from \<open>w\<close> by further calls, which only
  add to the call count and to the trace.
\<close>

definition follows :: "world \<Rightarrow> world \<Rightarrow> bool" where
  "follows w w' \<longleftrightarrow> tick w \<le> tick w' \<and> (\<exists>evs. trace w' = trace w @ evs)"

section \<open>The startup wait, round by round\<close>







section \<open>Sample nodes and environments\<close>

text \<open>
  Concrete inputs for evaluating the operations: a world that boots at a given clock
  reading, environments in which every call takes a fixed time and every
  \<^verbatim>\<open>get\<close> has a fixed answer, and a node built by \<open>ContainerMonitor_init\<close> with a
  given role and down-time tracker.
\<close>

definition boot :: "real \<Rightarrow> world" where
  "boot t = \<lparr> now = t, tick = 0, trace = [] \<rparr>"

definition env_const :: "real \<Rightarrow> get_result \<Rightarrow> env" where
  "env_const d g =
     \<lparr> lag = (\<lambda>n. d), get_answer = (\<lambda>n cn. g), stop_raises = (\<lambda>n cn. False),
       start_raises = (\<lambda>n cn. False), post_answer = (\<lambda>n. Response 200) \<rparr>"

definition env_recovered :: env where
  "env_recovered =
     \<lparr> lag = (\<lambda>n. 1),
       get_answer = (\<lambda>n cn. if n = 0 then Found ''running'' else Found ''exited''),
       stop_raises = (\<lambda>n cn. False),
       start_raises = (\<lambda>n cn. False), post_answer = (\<lambda>n. Response 200) \<rparr>"

definition node :: "ServerRole \<Rightarrow> (string \<rightharpoonup> real) \<Rightarrow> ContainerMonitor" where
  "node r m =
     (ContainerMonitor_init ''server1'' ''http://172.17.92.9:8000'' r)\<lparr> container_down_times := m \<rparr>"

definition env_peer :: "post_result \<Rightarrow> env" where
  "env_peer p = (env_const 1 (Found ''running''))\<lparr> post_answer := (\<lambda>n. p) \<rparr>"


section \<open>Properties\<close>

lemma time_time_simps:
  "fst (time_time e w) = now w + lag e (tick w)"
  "now (snd (time_time e w)) = now w + lag e (tick w)"
  "tick (snd (time_time e w)) = Suc (tick w)"
  "trace (snd (time_time e w)) = trace w"
  by (simp_all add: time_time_def elapse_def Let_def)

subsection \<open>The down-time tracker\<close>

text \<open>
  Claim C7. Take two status checks of the same workload, one after the other. If the
  first finds the workload running, it reports running and leaves no down-time entry. An
  entry that a check creates is created only when the driver found the workload with a
  status other than running while no entry existed, and it carries the clock reading
  taken by that check. An existing entry stays as it is while the workload is not
  observed running. So when the first check observes the workload running and the second
  finds it stopped, the entry after the second check is the reading of \<^verbatim>\<open>time.time()\<close>
  taken in the second check, whatever the earlier entry \<open>t0\<close> was.
\<close>

theorem tracker_round_trip:
  assumes "get_container_status e cn s w = (r1, s1, w1)"
    and "get_container_status e cn s1 w2 = (r2, s2, w3)"
  shows "(get_answer e (tick w) cn = Found ''running'' \<longrightarrow> r1 \<and> container_down_times s1 cn = None)
       \<and> (container_down_times s cn = None \<and> container_down_times s1 cn \<noteq> None \<longrightarrow>
            (\<exists>st. get_answer e (tick w) cn = Found st \<and> st \<noteq> ''running'')
            \<and> container_down_times s1 cn = Some (now w1))
       \<and> (container_down_times s cn = Some t0 \<and> get_answer e (tick w) cn \<noteq> Found ''running'' \<longrightarrow>
            container_down_times s1 cn = Some t0)
       \<and> (get_answer e (tick w) cn = Found ''running'' \<and> get_answer e (tick w2) cn = Found st
            \<and> st \<noteq> ''running'' \<longrightarrow>
            \<not> r2 \<and> container_down_times s2 cn = Some (now w3)
            \<and> now w3 = fst (time_time e (snd (docker_get e cn w2))))"
  using assms
  by (auto simp: get_container_status_def docker_get_def time_time_def elapse_def Let_def
           split: get_result.splits if_splits prod.splits)

theorem tracker_round_trip_witness:
  "\<exists>r1 s1 w1 r2 s2 w3.
     get_container_status env_recovered ''container-1''
         (node PRIMARY [''container-1'' \<mapsto> 100]) (boot 1000) = (r1, s1, w1)
     \<and> get_container_status env_recovered ''container-1'' s1 w1 = (r2, s2, w3)
     \<and> r1 \<and> container_down_times s1 ''container-1'' = None
     \<and> \<not> r2 \<and> container_down_times s2 ''container-1'' = Some 1003"
proof -
  let ?s = "node PRIMARY [''container-1'' \<mapsto> 100]"
  obtain r1 s1 w1 where
    a: "get_container_status env_recovered ''container-1'' ?s (boot 1000) = (r1, s1, w1)"
    by (metis prod_cases3)
  obtain r2 s2 w3 where
    b: "get_container_status env_recovered ''container-1'' s1 w1 = (r2, s2, w3)"
    by (metis prod_cases3)
  have w1: "w1 = \<lparr> now = 1001, tick = 1, trace = [Get ''container-1'' (Found ''running'')] \<rparr>"
    using a
    by (simp add: get_container_status_def docker_get_def elapse_def env_recovered_def
          boot_def node_def Let_def)
  have g1: "get_answer env_recovered (tick (boot 1000)) ''container-1'' = Found ''running''"
    by (simp add: env_recovered_def boot_def)
  have g2: "get_answer env_recovered (tick w1) ''container-1'' = Found ''exited''"
    by (simp add: env_recovered_def w1)
  have t: "fst (time_time env_recovered (snd (docker_get env_recovered ''container-1'' w1))) = 1003"
    by (simp add: w1 time_time_def docker_get_def elapse_def env_recovered_def Let_def)
  from tracker_round_trip [OF a b, of 100 "''exited''"] g1 g2 t
  have "r1 \<and> container_down_times s1 ''container-1'' = None
     \<and> \<not> r2 \<and> container_down_times s2 ''container-1'' = Some 1003"
    by simp
  with a b show ?thesis by blast
qed

subsection \<open>Health verification\<close>

text \<open>
  Claim C6. If the workload has a down-time entry \<open>t0\<close> and the clock reading taken at
  the start of \<open>verify_container_health\<close> is less than the restart grace period after
  \<open>t0\<close>, the function returns \<open>True\<close>, leaves the monitor as it was and issues no call
  to the workload driver: the world afterwards is the world after the one clock reading,
  with the trace of driver calls unchanged. The result does not depend on what the driver
  would answer.
\<close>

theorem verify_true_in_grace:
  assumes "container_down_times s cn = Some t0"
    and "fst (time_time e w) - t0 < real_of_int (restart_grace_period s)"
  shows "verify_container_health e cn s w = (True, s, snd (time_time e w))
         \<and> trace (snd (time_time e w)) = trace w"
  using assms
  by (auto simp: verify_container_health_def verify_grace_def defaultdict_getitem_def
        time_time_def elapse_def Let_def split: prod.splits)

theorem verify_true_in_grace_witness:
  "container_down_times (node PRIMARY [''container-1'' \<mapsto> 990]) ''container-1'' = Some 990
   \<and> fst (time_time (env_const 1 (Found ''exited'')) (boot 999)) - 990
       < real_of_int (restart_grace_period (node PRIMARY [''container-1'' \<mapsto> 990]))
   \<and> verify_container_health (env_const 1 (Found ''exited'')) ''container-1''
        (node PRIMARY [''container-1'' \<mapsto> 990]) (boot 999)
       = (True, node PRIMARY [''container-1'' \<mapsto> 990], \<lparr> now = 1000, tick = 1, trace = [] \<rparr>)"
proof -
  let ?s = "node PRIMARY [''container-1'' \<mapsto> 990]"
  let ?e = "env_const 1 (Found ''exited'')"
  have h1: "container_down_times ?s ''container-1'' = Some 990"
    by (simp add: node_def)
  have h2: "fst (time_time ?e (boot 999)) - 990 < real_of_int (restart_grace_period ?s)"
    by (simp add: node_def time_time_def elapse_def env_const_def boot_def
          ContainerMonitor_init_def GENERAL_CONFIG_def Let_def)
  have w: "snd (time_time ?e (boot 999)) = \<lparr> now = 1000, tick = 1, trace = [] \<rparr>"
    by (simp add: time_time_def elapse_def env_const_def boot_def Let_def)
  from verify_true_in_grace [OF h1 h2] h1 h2 w show ?thesis by simp
qed

subsection \<open>Failover entry point\<close>

text \<open>
  Claim C4. In every state whose role is not \<open>BACKUP\<close>, \<open>initiate_failover\<close> returns
  \<open>False\<close> with the monitor and the world exactly as they were: no workload is
  started, no call is made and the role is unchanged. When the role is \<open>BACKUP\<close> it
  is \<open>become_primary\<close> on the configured workloads, result included.
\<close>

theorem initiate_failover_guard:
  "(role s \<noteq> BACKUP \<longrightarrow> initiate_failover e hb s w = Some (False, s, w))
   \<and> (role s = BACKUP \<longrightarrow>
        initiate_failover e hb s w = become_primary e (containers (config hb)) s w)"
  by (auto simp: initiate_failover_def split: option.splits)

theorem initiate_failover_guard_witness:
  "role (node PRIMARY Map.empty) \<noteq> BACKUP
   \<and> initiate_failover (env_const 1 (Found ''exited'')) (HeartbeatMonitor_init SERVER1_CONFIG)
        (node PRIMARY Map.empty) (boot 1000)
       = Some (False, node PRIMARY Map.empty, boot 1000)"
proof -
  have h: "role (node PRIMARY Map.empty) \<noteq> BACKUP"
    by (simp add: node_def ContainerMonitor_init_def)
  from initiate_failover_guard [of "node PRIMARY Map.empty" "env_const 1 (Found ''exited'')"
         "HeartbeatMonitor_init SERVER1_CONFIG" "boot 1000"] h
  show ?thesis by simp
qed

subsection \<open>Auxiliary facts about the trace and the polls\<close>

lemma posts_docker_get: "posts (snd (docker_get e cn w)) = posts w"
  by (simp add: docker_get_def posts_def Let_def elapse_def)

lemma posts_container_stop: "posts (snd (container_stop e cn w)) = posts w"
  by (simp add: container_stop_def posts_def Let_def elapse_def)

lemma posts_time_time: "posts (snd (time_time e w)) = posts w"
  by (simp add: posts_def time_time_simps)

lemma posts_time_sleep: "posts (time_sleep e d w) = posts w"
  by (simp add: posts_def time_sleep_def elapse_def)

lemma posts_stop_all: "posts (snd (stop_all_containers e cs w)) = posts w"
proof (induction cs arbitrary: w)
  case Nil
  show ?case by simp
next
  case (Cons cn cs)
  obtain g w1 where g: "docker_get e cn w = (g, w1)" by (cases "docker_get e cn w")
  obtain ok w2 where k: "container_stop e cn w1 = (ok, w2)" by (cases "container_stop e cn w1")
  have p1: "posts w1 = posts w" using posts_docker_get [of e cn w] g by simp
  have p2: "posts w2 = posts w1" using posts_container_stop [of e cn w1] k by simp
  show ?case using g k p1 p2 Cons.IH [of w2]
    by (cases g) (simp_all)
qed

lemma posts_notify: "posts (snd (notify_other_server e w)) = Suc (posts w)"
  by (simp add: notify_other_server_def requests_post_def posts_def Let_def elapse_def
      split: post_result.splits)

lemma become_backup_role: "role (fst (become_backup e cs s w)) = BACKUP"
  by (simp add: become_backup_def Let_def split: prod.splits)

lemma posts_become_backup: "posts (snd (become_backup e cs s w)) = posts w"
  using posts_stop_all [of e cs w]
  by (cases "stop_all_containers e cs w") (simp add: become_backup_def Let_def)

lemma range3: "[0..<3] = [0, 1, 2]"
  by (simp add: upt_rec)


subsection \<open>Health verification of a tracked workload\<close>

text \<open>
  For a workload that has a down-time entry \<open>t0\<close> when \<open>verify_container_health\<close>
  is called, the result is \<open>False\<close> exactly when the call made three polls, none of
  which found the workload running, and the clock reading of the re-check is at least the
  restart grace period after \<open>t0\<close>.
\<close>

lemma poll_tracked:
  assumes "container_down_times s cn = Some t0"
    and "get_container_status e cn s w = (r, s1, w1)"
  shows "trace w1 = trace w @ [Get cn (get_answer e (tick w) cn)]
       \<and> (r \<longleftrightarrow> get_answer e (tick w) cn = Found ''running'')
       \<and> (\<not> r \<longrightarrow> s1 = s)"
  using assms
  by (auto simp: get_container_status_def docker_get_def elapse_def Let_def
        split: get_result.splits if_splits)

lemma trace_time_sleep: "trace (time_sleep e d w) = trace w"
  by (simp add: time_sleep_def elapse_def)

lemma verify_false_tracked:
  assumes tr: "container_down_times s cn = Some t0"
    and v: "verify_container_health e cn s w = (r, s', w')"
  shows "\<not> r \<longleftrightarrow>
           (\<exists>g1 g2 g3. trace w' = trace w @ [Get cn g1, Get cn g2, Get cn g3]
               \<and> g1 \<noteq> Found ''running'' \<and> g2 \<noteq> Found ''running'' \<and> g3 \<noteq> Found ''running'')
           \<and> real_of_int (restart_grace_period s) \<le> now w' - t0"
proof -
  obtain g wa where g: "verify_grace e cn s w = (g, wa)" by (metis prod.exhaust)
  have twa: "trace wa = trace w"
    using g by (auto simp: verify_grace_def time_time_def elapse_def Let_def split: if_splits)
  show ?thesis
  proof (cases g)
    case True
    with g v have "r" and "w' = wa" by (simp_all add: verify_container_health_def)
    with twa show ?thesis by simp
  next
    case False
    note ng = False
    obtain r1 s1 w1 where p1: "get_container_status e cn s wa = (r1, s1, w1)"
      by (metis prod_cases3)
    note f1 = poll_tracked [OF tr p1]
    show ?thesis
    proof (cases r1)
      case True
      with g ng v p1 have "r" and "w' = w1"
        by (simp_all add: verify_container_health_def range3)
      with f1 True twa show ?thesis by simp
    next
      case False
      note n1 = False
      with f1 have s1: "s1 = s" by simp
      obtain r2 s2 w2 where p2: "get_container_status e cn s (time_sleep e 5 w1) = (r2, s2, w2)"
        by (metis prod_cases3)
      note f2 = poll_tracked [OF tr p2]
      show ?thesis
      proof (cases r2)
        case True
        with g ng v p1 n1 s1 p2 have "r" and "w' = w2"
          by (simp_all add: verify_container_health_def range3)
        with f1 f2 True n1 twa show ?thesis by (simp add: trace_time_sleep)
      next
        case False
        note n2 = False
        with f2 have s2: "s2 = s" by simp
        obtain r3 s3 w3 where
          p3: "get_container_status e cn s (time_sleep e 5 w2) = (r3, s3, w3)"
          by (metis prod_cases3)
        note f3 = poll_tracked [OF tr p3]
        show ?thesis
        proof (cases r3)
          case True
          with g ng v p1 n1 s1 p2 n2 s2 p3 have "r" and "w' = w3"
            by (simp_all add: verify_container_health_def range3)
          with f1 f2 f3 True n1 n2 twa show ?thesis by (simp add: trace_time_sleep)
        next
          case False
          with f3 have s3: "s3 = s" by simp
          from g ng v p1 n1 s1 p2 n2 s2 p3 False s3
          have rc: "verify_recheck e cn s w3 = (r, s', w')"
            by (simp add: verify_container_health_def range3)
          have "trace w' = trace w3" and "r \<longleftrightarrow> \<not> real_of_int (restart_grace_period s) \<le> now w' - t0"
            using rc tr
            by (auto simp: verify_recheck_def defaultdict_getitem_def time_time_def elapse_def Let_def
                  split: if_splits)
          with f1 f2 f3 False n1 n2 twa show ?thesis by (simp add: trace_time_sleep)
        qed
      qed
    qed
  qed
qed

subsection \<open>Health verification without a down-time entry\<close>

text \<open>
  Claim C2. \<open>verify_container_health\<close> is meant to return \<open>False\<close> only when the
  workload's recorded down-since timestamp is at least the restart grace period old and
  all three polls reported not-running. The code returns \<open>False\<close> for a workload that
  never had a down-since timestamp: with an empty tracker and a driver that reports the
  workload not found at each of the three polls, the re-check of line 191 reads the
  \<^verbatim>\<open>defaultdict\<close> at a missing key, gets \<open>0.0\<close>, takes the whole clock reading as the
  down-time and returns \<open>False\<close>, about sixteen seconds after the call. The read
  of line 174 is guarded by a membership test; the read of line 191 is not.
\<close>

theorem verify_false_untracked:
  "verify_container_health (env_const 1 NotFound) ''container-1'' (node PRIMARY Map.empty)
      (boot 1730000000)
   = (False, node PRIMARY [''container-1'' \<mapsto> 0],
      \<lparr> now = 1730000016, tick = 6,
        trace = [Get ''container-1'' NotFound, Get ''container-1'' NotFound,
                 Get ''container-1'' NotFound] \<rparr>)"
  by (simp add: verify_container_health_def verify_grace_def range3 get_container_status_def
        verify_recheck_def defaultdict_getitem_def time_time_def docker_get_def elapse_def
        time_sleep_def Let_def node_def env_const_def boot_def ContainerMonitor_init_def
        GENERAL_CONFIG_def)




subsection \<open>The primary-side failure path\<close>

text \<open>
  Claim C3. The primary-side failure path first calls \<open>stop_all_containers\<close> on the
  owned workloads. If that returns \<open>False\<close> nothing else happens: no request is sent to
  the peer and the monitor, its role included, is unchanged. If it returns \<open>True\<close>
  exactly one request is sent to the peer; if the notification fails the monitor is
  again unchanged, and only if it succeeds does the path run \<open>become_backup\<close>, which
  sets the role to \<open>BACKUP\<close>. So the role after the path is \<open>BACKUP\<close> when both
  stopping and notifying succeeded, and the role the node had before otherwise.
\<close>

theorem primary_failure_path_sequence:
  assumes "stop_all_containers e cs w = (stopped, w1)"
    and "notify_other_server e w1 = (notified, w2)"
    and "primary_failure_path e cs s w = (s', w')"
  shows "role s' = (if stopped \<and> notified then BACKUP else role s)
       \<and> posts w' = posts w + (if stopped then 1 else 0)
       \<and> (\<not> stopped \<longrightarrow> s' = s \<and> w' = w1)
       \<and> (stopped \<and> \<not> notified \<longrightarrow> s' = s \<and> w' = w2)
       \<and> (stopped \<and> notified \<longrightarrow> (s', w') = become_backup e cs s w2)"
proof -
  have p1: "posts w1 = posts w" using posts_stop_all [of e cs w] assms(1) by simp
  have p2: "posts w2 = Suc (posts w1)" using posts_notify [of e w1] assms(2) by simp
  show ?thesis
  proof (cases stopped)
    case False
    with assms p1 show ?thesis by (simp add: primary_failure_path_def)
  next
    case True
    note st = True
    show ?thesis
    proof (cases notified)
      case False
      with st assms p1 p2 show ?thesis by (simp add: primary_failure_path_def)
    next
      case True
      with st assms have eq: "(s', w') = become_backup e cs s w2"
        by (simp add: primary_failure_path_def)
      have "role s' = BACKUP"
        using become_backup_role [of e cs s w2] eq [symmetric] by simp
      moreover have "posts w' = posts w2"
        using posts_become_backup [of e cs s w2] eq [symmetric] by simp
      ultimately show ?thesis using st True eq p1 p2 by simp
    qed
  qed
qed

theorem primary_failure_path_sequence_witness:
  "stop_all_containers (env_peer (Response 500)) [''container-1''] (boot 1000)
     = (True, \<lparr> now = 1002, tick = 2,
               trace = [Get ''container-1'' (Found ''running''), Stop ''container-1'' True] \<rparr>)
   \<and> notify_other_server (env_peer (Response 500))
        \<lparr> now = 1002, tick = 2,
          trace = [Get ''container-1'' (Found ''running''), Stop ''container-1'' True] \<rparr>
     = (False, \<lparr> now = 1003, tick = 3,
                trace = [Get ''container-1'' (Found ''running''), Stop ''container-1'' True,
                         Post (Response 500)] \<rparr>)
   \<and> primary_failure_path (env_peer (Response 500)) [''container-1'']
        (node PRIMARY Map.empty) (boot 1000)
     = (node PRIMARY Map.empty,
        \<lparr> now = 1003, tick = 3,
          trace = [Get ''container-1'' (Found ''running''), Stop ''container-1'' True,
                   Post (Response 500)] \<rparr>)
   \<and> role (node PRIMARY Map.empty) = PRIMARY"
proof -
  let ?e = "env_peer (Response 500)"
  let ?w1 = "\<lparr> now = 1002, tick = 2,
               trace = [Get ''container-1'' (Found ''running''), Stop ''container-1'' True] \<rparr>"
  let ?w2 = "\<lparr> now = 1003, tick = 3,
                trace = [Get ''container-1'' (Found ''running''), Stop ''container-1'' True,
                         Post (Response 500)] \<rparr>"
  obtain s' w' where
    p: "primary_failure_path ?e [''container-1''] (node PRIMARY Map.empty) (boot 1000) = (s', w')"
    by (metis prod.exhaust)
  have h1: "stop_all_containers ?e [''container-1''] (boot 1000) = (True, ?w1)"
    by (simp add: docker_get_def container_stop_def elapse_def env_peer_def env_const_def
          boot_def Let_def)
  have h2: "notify_other_server ?e ?w1 = (False, ?w2)"
    by (simp add: notify_other_server_def requests_post_def elapse_def env_peer_def
          env_const_def Let_def)
  from primary_failure_path_sequence [OF h1 h2 p]
  have "s' = node PRIMARY Map.empty \<and> w' = ?w2" by simp
  with p h1 h2 show ?thesis by (simp add: node_def ContainerMonitor_init_def)
qed

subsection \<open>The staleness loop\<close>

lemma become_primary_all_running:
  "become_primary (env_const 1 (Found ''running'')) [a, b] (node BACKUP Map.empty)
      \<lparr> now = t, tick = k, trace = [] \<rparr>
   = Some (True, (node PRIMARY Map.empty)\<lparr> container_start_time := t + 5 \<rparr>,
           \<lparr> now = t + 9, tick = k + 9,
             trace = [Get a (Found ''running''), Start a True,
                      Get b (Found ''running''), Start b True,
                      Get a (Found ''running''), Get b (Found ''running'')] \<rparr>)"
  unfolding become_primary_def start_all_containers_def wait_for_containers_startup_def
  by (simp add: docker_get_def container_start_def time_time_def elapse_def env_const_def
        Let_def, subst wait_loop.simps)
    (simp add: get_container_status_def docker_get_def time_time_def elapse_def
      node_def ContainerMonitor_init_def Let_def)

text \<open>
  Claim C8. Timestamps are readings of an epoch clock, or the initial \<open>0\<close>, hence not
  negative. One iteration of the staleness loop is a call of \<open>initiate_failover\<close>
  (followed by the sleep of the check interval) exactly when the role is \<open>BACKUP\<close>, the
  last heartbeat timestamp is not zero, and the clock reading of the iteration minus that
  timestamp exceeds the heartbeat timeout. In every other case the iteration leaves the
  monitor unchanged and only reads the clock (when \<open>BACKUP\<close>) and sleeps; in particular
  nothing happens while the timestamp is still \<open>0\<close>.
\<close>

theorem check_heartbeat_iteration_calls:
  assumes "0 \<le> last_heartbeat hb"
  shows "check_heartbeat_iteration e hb s w =
     (if role s = BACKUP \<and> last_heartbeat hb \<noteq> 0
          \<and> fst (time_time e w) - last_heartbeat hb > real_of_int (heartbeat_timeout hb)
      then (case initiate_failover e hb s (snd (time_time e w)) of
              None \<Rightarrow> None
            | Some (r, s', w') \<Rightarrow>
                Some (s', time_sleep e (real_of_int (check_heartbeat_interval hb)) w'))
      else Some (s, time_sleep e (real_of_int (check_heartbeat_interval hb))
                      (if role s = BACKUP then snd (time_time e w) else w)))"
  using assms
  by (auto simp: check_heartbeat_iteration_def Let_def split: prod.splits option.splits)

theorem check_heartbeat_iteration_calls_witness:
  "0 \<le> last_heartbeat ((HeartbeatMonitor_init SERVER2_CONFIG)\<lparr> last_heartbeat := 970 \<rparr>)
   \<and> role (node BACKUP Map.empty) = BACKUP
   \<and> fst (time_time (env_const 1 (Found ''running'')) (boot 999)) - 970
        > real_of_int (heartbeat_timeout (HeartbeatMonitor_init SERVER2_CONFIG))
   \<and> check_heartbeat_iteration (env_const 1 (Found ''running''))
        ((HeartbeatMonitor_init SERVER2_CONFIG)\<lparr> last_heartbeat := 970 \<rparr>)
        (node BACKUP Map.empty) (boot 999)
     = Some ((node PRIMARY Map.empty)\<lparr> container_start_time := 1005 \<rparr>,
             \<lparr> now = 1015, tick = 11,
               trace = [Get ''container-1'' (Found ''running''), Start ''container-1'' True,
                        Get ''container-2'' (Found ''running''), Start ''container-2'' True,
                        Get ''container-1'' (Found ''running''),
                        Get ''container-2'' (Found ''running'')] \<rparr>)"
proof -
  let ?e = "env_const 1 (Found ''running'')"
  let ?hb = "(HeartbeatMonitor_init SERVER2_CONFIG)\<lparr> last_heartbeat := 970 \<rparr>"
  have h: "0 \<le> last_heartbeat ?hb" by simp
  have r: "role (node BACKUP Map.empty) = BACKUP"
    by (simp add: node_def ContainerMonitor_init_def)
  have t: "time_time ?e (boot 999) = (1000, \<lparr> now = 1000, tick = 1, trace = [] \<rparr>)"
    by (simp add: time_time_def elapse_def env_const_def boot_def Let_def)
  have f: "initiate_failover ?e ?hb (node BACKUP Map.empty) \<lparr> now = 1000, tick = Suc 0, trace = [] \<rparr>
      = Some (True, (node PRIMARY Map.empty)\<lparr> container_start_time := 1005 \<rparr>,
           \<lparr> now = 1009, tick = 10,
             trace = [Get ''container-1'' (Found ''running''), Start ''container-1'' True,
                      Get ''container-2'' (Found ''running''), Start ''container-2'' True,
                      Get ''container-1'' (Found ''running''),
                      Get ''container-2'' (Found ''running'')] \<rparr>)"
    using become_primary_all_running [of "''container-1''" "''container-2''" 1000 1]
    by (simp add: initiate_failover_def r HeartbeatMonitor_init_def SERVER2_CONFIG_def)
  have stale: "fst (time_time ?e (boot 999)) - 970 > real_of_int (heartbeat_timeout ?hb)"
    by (simp add: t HeartbeatMonitor_init_def GENERAL_CONFIG_def)
  have iv: "check_heartbeat_interval (HeartbeatMonitor_init SERVER2_CONFIG) = 5"
    by (simp add: HeartbeatMonitor_init_def GENERAL_CONFIG_def)
  have sl: "time_sleep ?e 5 \<lparr> now = 1009, tick = 10, trace = tr \<rparr>
              = \<lparr> now = 1015, tick = 11, trace = tr \<rparr>" for tr
    by (simp add: time_sleep_def elapse_def env_const_def)
  from check_heartbeat_iteration_calls [OF h, of ?e "node BACKUP Map.empty" "boot 999"] r stale
  have "check_heartbeat_iteration ?e ?hb (node BACKUP Map.empty) (boot 999)
      = (case initiate_failover ?e ?hb (node BACKUP Map.empty) (snd (time_time ?e (boot 999))) of
           None \<Rightarrow> None
         | Some (r, s', w') \<Rightarrow>
             Some (s', time_sleep ?e (real_of_int (check_heartbeat_interval ?hb)) w'))"
    by simp
  also have "\<dots> = Some ((node PRIMARY Map.empty)\<lparr> container_start_time := 1005 \<rparr>,
             \<lparr> now = 1015, tick = 11,
               trace = [Get ''container-1'' (Found ''running''), Start ''container-1'' True,
                        Get ''container-2'' (Found ''running''), Start ''container-2'' True,
                        Get ''container-1'' (Found ''running''),
                        Get ''container-2'' (Found ''running'')] \<rparr>)"
    by (simp add: t f iv sl)
  finally show ?thesis using h r stale by simp
qed

subsection \<open>The primary health loop\<close>

lemma posts_should_check: "posts (snd (should_check_container e cn s w)) = posts w"
  by (simp add: should_check_container_def time_time_def docker_get_def elapse_def posts_def
        Let_def split: get_result.splits)

lemma posts_get_container_status:
  "posts (snd (snd (get_container_status e cn s w))) = posts w"
  by (simp add: get_container_status_def time_time_def docker_get_def elapse_def posts_def
        Let_def split: get_result.splits)

lemma posts_verify_checks:
  "posts (snd (snd (verify_checks e n is cn s w))) = posts w"
proof (induction "is" arbitrary: s w)
  case Nil
  show ?case by simp
next
  case (Cons i "is")
  obtain r s1 w1 where g: "get_container_status e cn s w = (r, s1, w1)"
    by (metis prod_cases3)
  have p: "posts w1 = posts w" using posts_get_container_status [of e cn s w] g by simp
  show ?case using g p Cons.IH [of s1 "time_sleep e 5 w1"] Cons.IH [of s1 w1]
    by (simp add: posts_time_sleep)
qed

lemma posts_verify: "posts (snd (snd (verify_container_health e cn s w))) = posts w"
proof -
  obtain g w1 where a: "verify_grace e cn s w = (g, w1)" by (metis prod.exhaust)
  obtain r s2 w2 where b: "verify_checks e 3 [0..<3] cn s w1 = (r, s2, w2)"
    by (metis prod_cases3)
  have p1: "posts w1 = posts w"
    using a by (auto simp: verify_grace_def time_time_def elapse_def posts_def Let_def
                  split: if_splits)
  have p2: "posts w2 = posts w1" using posts_verify_checks [of e 3 "[0..<3]" cn s w1] b by simp
  have p3: "posts (snd (snd (verify_recheck e cn s2 w2))) = posts w2"
    by (simp add: verify_recheck_def time_time_def elapse_def posts_def Let_def
          split: prod.splits)
  show ?thesis using a b p1 p2 p3 by (simp add: verify_container_health_def Let_def)
qed

lemma posts_failure_path: "posts (snd (primary_failure_path e cs s w)) \<le> Suc (posts w)"
proof -
  obtain stopped w1 where a: "stop_all_containers e cs w = (stopped, w1)" by (metis prod.exhaust)
  obtain notified w2 where b: "notify_other_server e w1 = (notified, w2)" by (metis prod.exhaust)
  have p1: "posts w1 = posts w" using posts_stop_all [of e cs w] a by simp
  have p2: "posts w2 = Suc (posts w1)" using posts_notify [of e w1] b by simp
  show ?thesis using a b p1 p2 posts_become_backup [of e cs s w2]
    by (simp add: primary_failure_path_def)
qed

lemma posts_wrapper_body: "posts (snd (wrapper_body e all_cs cn s w)) \<le> Suc (posts w)"
proof -
  obtain chk w1 where a: "should_check_container e cn s w = (chk, w1)" by (metis prod.exhaust)
  obtain running s2 w2 where b: "get_container_status e cn s w1 = (running, s2, w2)"
    by (metis prod_cases3)
  obtain healthy s3 w3 where c: "verify_container_health e cn s2 w2 = (healthy, s3, w3)"
    by (metis prod_cases3)
  have p1: "posts w1 = posts w" using posts_should_check [of e cn s w] a by simp
  have p2: "posts w2 = posts w1" using posts_get_container_status [of e cn s w1] b by simp
  have p3: "posts w3 = posts w2" using posts_verify [of e cn s2 w2] c by simp
  show ?thesis using a b c p1 p2 p3 posts_failure_path [of e all_cs s3 w3]
    by (simp add: wrapper_body_def)
qed

lemma posts_monitor_body: "posts (snd (monitor_body e all_cs cn s w)) \<le> Suc (posts w)"
proof -
  obtain healthy s1 w1 where c: "verify_container_health e cn s w = (healthy, s1, w1)"
    by (metis prod_cases3)
  have p: "posts w1 = posts w" using posts_verify [of e cn s w] c by simp
  show ?thesis using c p posts_failure_path [of e all_cs s1 w1]
    by (simp add: monitor_body_def)
qed

lemma posts_wrapper_for: "posts (snd (wrapper_for e all_cs cs s w)) \<le> posts w + length cs"
proof (induction cs arbitrary: s w)
  case Nil
  show ?case by simp
next
  case (Cons cn cs)
  obtain s1 w1 where a: "wrapper_body e all_cs cn s w = (s1, w1)" by (metis prod.exhaust)
  have "posts w1 \<le> Suc (posts w)" using posts_wrapper_body [of e all_cs cn s w] a by simp
  with Cons.IH [of s1 w1] a show ?case by simp
qed

lemma posts_monitor_for: "posts (snd (monitor_for e all_cs cs s w)) \<le> posts w + length cs"
proof (induction cs arbitrary: s w)
  case Nil
  show ?case by simp
next
  case (Cons cn cs)
  obtain s1 w1 where a: "monitor_body e all_cs cn s w = (s1, w1)" by (metis prod.exhaust)
  have "posts w1 \<le> Suc (posts w)" using posts_monitor_body [of e all_cs cn s w] a by simp
  with Cons.IH [of s1 w1] a show ?case by simp
qed

lemma wrapper_for_append:
  "wrapper_for e all_cs (xs @ ys) s w =
     (case wrapper_for e all_cs xs s w of (s1, w1) \<Rightarrow> wrapper_for e all_cs ys s1 w1)"
  by (induction xs arbitrary: s w) (simp_all split: prod.splits)

lemma monitor_for_append:
  "monitor_for e all_cs (xs @ ys) s w =
     (case monitor_for e all_cs xs s w of (s1, w1) \<Rightarrow> monitor_for e all_cs ys s1 w1)"
  by (induction xs arbitrary: s w) (simp_all split: prod.splits)

text \<open>
  Claim C1, as stated, fails: neither health loop leaves its \<^verbatim>\<open>for\<close> loop after a
  failover. On a primary with the two configured workloads, both stopped and both tracked
  as down for forty seconds, one cycle of \<open>monitor_containers_wrapper\<close> confirms the
  failure of the first workload, stops all workloads and notifies the peer, then goes on
  to check the second workload, confirms its failure too, and stops all workloads and
  notifies the peer a second time.
\<close>

theorem health_loop_two_failovers:
  "posts (snd (monitor_containers_wrapper_cycle (env_const 1 (Found ''exited'')) SERVER1_CONFIG
       (node PRIMARY [''container-1'' \<mapsto> 960, ''container-2'' \<mapsto> 960]) (boot 1000))) = 2
   \<and> trace (snd (monitor_containers_wrapper_cycle (env_const 1 (Found ''exited'')) SERVER1_CONFIG
       (node PRIMARY [''container-1'' \<mapsto> 960, ''container-2'' \<mapsto> 960]) (boot 1000)))
     = [Get ''container-1'' (Found ''exited''), Get ''container-1'' (Found ''exited''),
        Get ''container-1'' (Found ''exited''), Get ''container-1'' (Found ''exited''),
        Get ''container-1'' (Found ''exited''),
        Get ''container-1'' (Found ''exited''), Stop ''container-1'' True,
        Get ''container-2'' (Found ''exited''), Stop ''container-2'' True,
        Post (Response 200),
        Get ''container-1'' (Found ''exited''), Stop ''container-1'' True,
        Get ''container-2'' (Found ''exited''), Stop ''container-2'' True,
        Get ''container-2'' (Found ''exited''), Get ''container-2'' (Found ''exited''),
        Get ''container-2'' (Found ''exited''), Get ''container-2'' (Found ''exited''),
        Get ''container-2'' (Found ''exited''),
        Get ''container-1'' (Found ''exited''), Stop ''container-1'' True,
        Get ''container-2'' (Found ''exited''), Stop ''container-2'' True,
        Post (Response 200),
        Get ''container-1'' (Found ''exited''), Stop ''container-1'' True,
        Get ''container-2'' (Found ''exited''), Stop ''container-2'' True]"
  by (simp add: monitor_containers_wrapper_cycle_def wrapper_body_def primary_failure_path_def
        should_check_container_def become_backup_def notify_other_server_def requests_post_def
        container_stop_def verify_container_health_def verify_grace_def range3
        get_container_status_def verify_recheck_def defaultdict_getitem_def time_time_def
        docker_get_def elapse_def time_sleep_def Let_def node_def env_const_def boot_def
        ContainerMonitor_init_def GENERAL_CONFIG_def SERVER1_CONFIG_def posts_def)

lemma follows_refl: "follows w w"
  by (simp add: follows_def)

lemma follows_trans: "follows w w1 \<Longrightarrow> follows w1 w2 \<Longrightarrow> follows w w2"
  by (auto simp: follows_def)

lemma follows_time_time: "follows w (snd (time_time e w))"
  by (simp add: follows_def time_time_simps)

lemma follows_time_sleep: "follows w (time_sleep e d w)"
  by (simp add: follows_def time_sleep_def elapse_def)

lemma follows_docker_get: "follows w (snd (docker_get e cn w))"
  by (simp add: follows_def docker_get_def elapse_def Let_def)

lemma follows_container_stop: "follows w (snd (container_stop e cn w))"
  by (simp add: follows_def container_stop_def elapse_def Let_def)

lemma follows_notify: "follows w (snd (notify_other_server e w))"
  by (simp add: follows_def notify_other_server_def requests_post_def elapse_def Let_def
        split: post_result.splits)

lemma follows_stop_all: "follows w (snd (stop_all_containers e cs w))"
proof (induction cs arbitrary: w)
  case Nil
  show ?case by (simp add: follows_refl)
next
  case (Cons cn cs)
  obtain g w1 where g: "docker_get e cn w = (g, w1)" by (metis prod.exhaust)
  obtain ok w2 where k: "container_stop e cn w1 = (ok, w2)" by (metis prod.exhaust)
  have f1: "follows w w1" using follows_docker_get [where w = w and e = e and cn = cn] g by simp
  have f2: "follows w1 w2" using follows_container_stop [where w = w1 and e = e and cn = cn] k by simp
  have f3: "follows w w2" by (rule follows_trans [OF f1 f2])
  have f4: "follows w (snd (stop_all_containers e cs w2))"
    by (rule follows_trans [OF f3 Cons.IH])
  show ?case using g k f1 f3 f4 by (cases g) simp_all
qed

lemma follows_become_backup: "follows w (snd (become_backup e cs s w))"
  using follows_stop_all [where w = w and e = e and cs = cs]
  by (cases "stop_all_containers e cs w") (simp add: become_backup_def Let_def)

lemma follows_failure_path: "follows w (snd (primary_failure_path e cs s w))"
proof -
  obtain stopped w1 where a: "stop_all_containers e cs w = (stopped, w1)" by (metis prod.exhaust)
  obtain notified w2 where b: "notify_other_server e w1 = (notified, w2)" by (metis prod.exhaust)
  have f1: "follows w w1" using follows_stop_all [where w = w and e = e and cs = cs] a by simp
  have f2: "follows w1 w2" using follows_notify [where w = w1 and e = e] b by simp
  have f3: "follows w w2" by (rule follows_trans [OF f1 f2])
  have f4: "follows w (snd (become_backup e cs s w2))"
    by (rule follows_trans [OF f3 follows_become_backup])
  show ?thesis using a b f1 f3 f4 by (simp add: primary_failure_path_def)
qed

lemma follows_get_container_status:
  "follows (snd (docker_get e cn w)) (snd (snd (get_container_status e cn s w)))"
  by (auto simp: get_container_status_def follows_def docker_get_def time_time_def elapse_def
        Let_def split: get_result.splits)

lemma follows_poll: "follows w (snd (snd (get_container_status e cn s w)))"
  by (rule follows_trans [OF follows_docker_get follows_get_container_status])

lemma follows_verify_checks: "follows w (snd (snd (verify_checks e n is cn s w)))"
proof (induction "is" arbitrary: s w)
  case Nil
  show ?case by (simp add: follows_refl)
next
  case (Cons i "is")
  obtain r s1 w1 where g: "get_container_status e cn s w = (r, s1, w1)"
    by (metis prod_cases3)
  have f1: "follows w w1"
    using follows_poll [where w = w and e = e and cn = cn and s = s] g by simp
  have f2: "follows w (time_sleep e 5 w1)"
    by (rule follows_trans [OF f1 follows_time_sleep])
  have f3: "follows w (snd (snd (verify_checks e n is cn s1 w1)))"
    by (rule follows_trans [OF f1 Cons.IH])
  have f4: "follows w (snd (snd (verify_checks e n is cn s1 (time_sleep e 5 w1))))"
    by (rule follows_trans [OF f2 Cons.IH])
  show ?case using g f1 f3 f4 by simp
qed

lemma follows_verify_recheck: "follows w (snd (snd (verify_recheck e cn s w)))"
  by (auto simp: verify_recheck_def follows_def time_time_def elapse_def Let_def
        split: prod.splits)

lemma follows_verify: "follows w (snd (snd (verify_container_health e cn s w)))"
proof -
  obtain g w1 where a: "verify_grace e cn s w = (g, w1)" by (metis prod.exhaust)
  obtain r s2 w2 where b: "verify_checks e 3 [0..<3] cn s w1 = (r, s2, w2)"
    by (metis prod_cases3)
  have f1: "follows w w1"
    using a by (auto simp: verify_grace_def follows_def time_time_def elapse_def Let_def
                  split: if_splits)
  have "follows w1 (snd (snd (verify_checks e 3 [0..<3] cn s w1)))"
    by (rule follows_verify_checks)
  with b have "follows w1 w2" by simp
  with f1 have f2: "follows w w2" by (rule follows_trans)
  have f3: "follows w (snd (snd (verify_recheck e cn s2 w2)))"
    by (rule follows_trans [OF f2 follows_verify_recheck])
  show ?thesis using a b f1 f2 f3 by (simp add: verify_container_health_def Let_def)
qed

lemma tick_verify: "tick w < tick (snd (snd (verify_container_health e cn s w)))"
proof -
  obtain g w1 where a: "verify_grace e cn s w = (g, w1)" by (metis prod.exhaust)
  show ?thesis
  proof (cases "cn \<in> dom (container_down_times s)")
    case True
    with a have t: "tick w < tick w1"
      by (auto simp: verify_grace_def time_time_def elapse_def Let_def split: if_splits)
    show ?thesis
    proof (cases g)
      case True
      with a t show ?thesis by (simp add: verify_container_health_def)
    next
      case False
      obtain r s2 w2 where b: "verify_checks e 3 [0..<3] cn s w1 = (r, s2, w2)"
        by (metis prod_cases3)
      have "follows w1 (snd (snd (verify_checks e 3 [0..<3] cn s w1)))"
        by (rule follows_verify_checks)
      with b have "follows w1 w2" by simp
      moreover have "follows w2 (snd (snd (verify_recheck e cn s2 w2)))"
        by (rule follows_verify_recheck)
      ultimately show ?thesis using a b t False
        by (auto simp: verify_container_health_def follows_def Let_def)
    qed
  next
    case False
    with a have g: "\<not> g" and w1: "w1 = w" by (auto simp: verify_grace_def)
    obtain r1 s1 wa where p: "get_container_status e cn s w = (r1, s1, wa)"
      by (metis prod_cases3)
    have t: "tick w < tick wa"
      using follows_get_container_status [where e = e and cn = cn and w = w and s = s] p
      by (simp add: follows_def docker_get_def elapse_def Let_def)
    obtain r s2 w2 where b: "verify_checks e 3 [1, 2] cn s1 (time_sleep e 5 wa) = (r, s2, w2)"
      by (metis prod_cases3)
    have "follows (time_sleep e 5 wa) (snd (snd (verify_checks e 3 [1, 2] cn s1 (time_sleep e 5 wa))))"
      by (rule follows_verify_checks)
    with b have "follows (time_sleep e 5 wa) w2" by simp
    with follows_time_sleep [where w = wa and e = e and d = 5] have f: "follows wa w2" by (rule follows_trans)
    have f2: "follows w2 (snd (snd (verify_recheck e cn s2 w2)))"
      by (rule follows_verify_recheck)
    show ?thesis
    proof (cases r1)
      case True
      with a g w1 p t show ?thesis by (simp add: verify_container_health_def range3)
    next
      case False
      with a g w1 p t b f f2 show ?thesis
        by (auto simp: verify_container_health_def range3 follows_def)
    qed
  qed
qed

lemma tick_wrapper_body: "tick w < tick (snd (wrapper_body e all_cs cn s w))"
proof -
  obtain chk w1 where a: "should_check_container e cn s w = (chk, w1)" by (metis prod.exhaust)
  obtain running s2 w2 where b: "get_container_status e cn s w1 = (running, s2, w2)"
    by (metis prod_cases3)
  obtain healthy s3 w3 where c: "verify_container_health e cn s2 w2 = (healthy, s3, w3)"
    by (metis prod_cases3)
  have t1: "tick w < tick w1"
    using a by (auto simp: should_check_container_def time_time_def docker_get_def elapse_def
                  Let_def split: if_splits get_result.splits)
  have f2: "follows w1 w2"
    using follows_poll [where w = w1 and e = e and cn = cn and s = s] b by simp
  have f3: "follows w2 w3" using follows_verify [where w = w2 and e = e and cn = cn and s = s2] c by simp
  have f4: "follows w3 (snd (primary_failure_path e all_cs s3 w3))"
    by (rule follows_failure_path)
  show ?thesis using a b c t1 f2 f3 f4
    by (auto simp: wrapper_body_def follows_def)
qed

lemma tick_monitor_body: "tick w < tick (snd (monitor_body e all_cs cn s w))"
proof -
  obtain healthy s1 w1 where c: "verify_container_health e cn s w = (healthy, s1, w1)"
    by (metis prod_cases3)
  have t: "tick w < tick w1" using tick_verify [where w = w and e = e and cn = cn and s = s] c by simp
  have f: "follows w1 (snd (primary_failure_path e all_cs s1 w1))"
    by (rule follows_failure_path)
  show ?thesis using c t f by (auto simp: monitor_body_def follows_def)
qed

lemma tick_wrapper_for: "tick w + length cs \<le> tick (snd (wrapper_for e all_cs cs s w))"
proof (induction cs arbitrary: s w)
  case Nil
  show ?case by simp
next
  case (Cons cn cs)
  obtain s1 w1 where a: "wrapper_body e all_cs cn s w = (s1, w1)" by (metis prod.exhaust)
  have "tick w < tick w1" using tick_wrapper_body [where w = w and e = e and all_cs = all_cs and cn = cn and s = s] a by simp
  with Cons.IH [where w = w1 and s = s1] a show ?case by simp
qed

lemma tick_monitor_for: "tick w + length cs \<le> tick (snd (monitor_for e all_cs cs s w))"
proof (induction cs arbitrary: s w)
  case Nil
  show ?case by simp
next
  case (Cons cn cs)
  obtain s1 w1 where a: "monitor_body e all_cs cn s w = (s1, w1)" by (metis prod.exhaust)
  have "tick w < tick w1" using tick_monitor_body [where w = w and e = e and all_cs = all_cs and cn = cn and s = s] a by simp
  with Cons.IH [where w = w1 and s = s1] a show ?case by simp
qed

lemma wrapper_for_foldl:
  "wrapper_for e all_cs cs s w
     = foldl (\<lambda>sw cn. wrapper_body e all_cs cn (fst sw) (snd sw)) (s, w) cs"
  by (induction cs arbitrary: s w) (simp_all split: prod.splits)

lemma monitor_for_foldl:
  "monitor_for e all_cs cs s w
     = foldl (\<lambda>sw cn. monitor_body e all_cs cn (fst sw) (snd sw)) (s, w) cs"
  by (induction cs arbitrary: s w) (simp_all split: prod.splits)

lemma wrapper_body_asks_driver:
  assumes "\<not> fst (time_time e w) - container_start_time s < real_of_int (startup_grace_period s)"
  shows "\<exists>evs. trace (snd (wrapper_body e all_cs cn s w))
                 = trace w @ Get cn (get_answer e (Suc (tick w)) cn) # evs"
proof -
  obtain t wt where t: "time_time e w = (t, wt)" by (metis prod.exhaust)
  obtain g w1 where g: "docker_get e cn wt = (g, w1)" by (metis prod.exhaust)
  have wt: "tick wt = Suc (tick w)" "trace wt = trace w"
    using t time_time_simps(3,4) [of e w] by simp_all
  have tr1: "trace w1 = trace w @ [Get cn (get_answer e (Suc (tick w)) cn)]"
    using g wt by (auto simp: docker_get_def elapse_def Let_def)
  obtain running s2 w2 where b: "get_container_status e cn s w1 = (running, s2, w2)"
    by (metis prod_cases3)
  obtain healthy s3 w3 where c: "verify_container_health e cn s2 w2 = (healthy, s3, w3)"
    by (metis prod_cases3)
  have sc: "should_check_container e cn s w = ((case g of Found st \<Rightarrow> True | _ \<Rightarrow> False), w1)"
    using assms t g by (cases g) (simp_all add: should_check_container_def Let_def)
  have f2: "follows w1 w2"
    using follows_poll [where w = w1 and e = e and cn = cn and s = s] b by simp
  have f3: "follows w1 w3"
    using follows_trans [OF f2 follows_verify [where w = w2 and e = e and cn = cn and s = s2]] c by simp
  have f4: "follows w1 (snd (primary_failure_path e all_cs s3 w3))"
    by (rule follows_trans [OF f3 follows_failure_path])
  have "follows w1 (snd (wrapper_body e all_cs cn s w))"
    using sc b c f2 f3 f4 by (simp add: wrapper_body_def follows_refl)
  then obtain evs where "trace (snd (wrapper_body e all_cs cn s w)) = trace w1 @ evs"
    unfolding follows_def by blast
  with tr1 show ?thesis by simp
qed

text \<open>
  Claim C1, amended. In both health loops, when the failure of a workload is confirmed by
  \<open>verify_container_health\<close>, the body of the loop is the primary-side failure path
  for the full workload set. The loop does not stop there: a cycle is the body of the
  loop run for every owned workload in listed order, each from the monitor and the world
  that the workload before it left, whatever the role has become. Every workload handled
  costs at least one call, and in the loop of \<^verbatim>\<open>main.py\<close> a workload handled outside
  the startup grace period is looked up at the driver, also right after a failover. So
  workloads after a failing one are still checked in the same cycle, and a cycle sends
  the peer at most one notification per owned workload.
\<close>

theorem health_loop_attempts:
  "(should_check_container e cn s w = (True, w1)
      \<and> get_container_status e cn s w1 = (False, s2, w2)
      \<and> verify_container_health e cn s2 w2 = (False, s3, w3)
      \<longrightarrow> wrapper_body e all_cs cn s w = primary_failure_path e all_cs s3 w3)
   \<and> (verify_container_health e cn s w = (False, s4, w4)
      \<longrightarrow> monitor_body e all_cs cn s w = primary_failure_path e all_cs s4 w4)
   \<and> wrapper_for e all_cs cs s w
       = foldl (\<lambda>sw c. wrapper_body e all_cs c (fst sw) (snd sw)) (s, w) cs
   \<and> monitor_for e all_cs cs s w
       = foldl (\<lambda>sw c. monitor_body e all_cs c (fst sw) (snd sw)) (s, w) cs
   \<and> wrapper_for e all_cs (cn # rest) s w =
       (case wrapper_body e all_cs cn s w of (sa, wa) \<Rightarrow> wrapper_for e all_cs rest sa wa)
   \<and> monitor_for e all_cs (cn # rest) s w =
       (case monitor_body e all_cs cn s w of (sa, wa) \<Rightarrow> monitor_for e all_cs rest sa wa)
   \<and> wrapper_for e all_cs (xs @ ys) s w =
       (case wrapper_for e all_cs xs s w of (s1, w1) \<Rightarrow> wrapper_for e all_cs ys s1 w1)
   \<and> monitor_for e all_cs (xs @ ys) s w =
       (case monitor_for e all_cs xs s w of (s1, w1) \<Rightarrow> monitor_for e all_cs ys s1 w1)
   \<and> (\<not> fst (time_time e wb) - container_start_time sb < real_of_int (startup_grace_period sb)
      \<longrightarrow> (\<exists>evs. trace (snd (wrapper_body e all_cs cnb sb wb))
                    = trace wb @ Get cnb (get_answer e (Suc (tick wb)) cnb) # evs))
   \<and> tick w + length cs \<le> tick (snd (wrapper_for e all_cs cs s w))
   \<and> tick w + length cs \<le> tick (snd (monitor_for e all_cs cs s w))
   \<and> posts (snd (wrapper_for e all_cs cs s w)) \<le> posts w + length cs
   \<and> posts (snd (monitor_for e all_cs cs s w)) \<le> posts w + length cs"
proof -
  have a: "should_check_container e cn s w = (True, w1)
      \<and> get_container_status e cn s w1 = (False, s2, w2)
      \<and> verify_container_health e cn s2 w2 = (False, s3, w3)
      \<longrightarrow> wrapper_body e all_cs cn s w = primary_failure_path e all_cs s3 w3"
    by (simp add: wrapper_body_def)
  have b: "verify_container_health e cn s w = (False, s4, w4)
      \<longrightarrow> monitor_body e all_cs cn s w = primary_failure_path e all_cs s4 w4"
    by (simp add: monitor_body_def)
  have c: "\<not> fst (time_time e wb) - container_start_time sb < real_of_int (startup_grace_period sb)
      \<longrightarrow> (\<exists>evs. trace (snd (wrapper_body e all_cs cnb sb wb))
                    = trace wb @ Get cnb (get_answer e (Suc (tick wb)) cnb) # evs)"
    using wrapper_body_asks_driver [where e = e and w = wb and s = sb and cn = cnb
        and all_cs = all_cs] by blast
  have d: "wrapper_for e all_cs (cn # rest) s w =
       (case wrapper_body e all_cs cn s w of (sa, wa) \<Rightarrow> wrapper_for e all_cs rest sa wa)"
    "monitor_for e all_cs (cn # rest) s w =
       (case monitor_body e all_cs cn s w of (sa, wa) \<Rightarrow> monitor_for e all_cs rest sa wa)"
    by simp_all
  from a b c d wrapper_for_foldl [of e all_cs cs s w] monitor_for_foldl [of e all_cs cs s w]
    wrapper_for_append [of e all_cs xs ys s w] monitor_for_append [of e all_cs xs ys s w]
    tick_wrapper_for [where w = w and cs = cs and e = e and all_cs = all_cs and s = s]
    tick_monitor_for [where w = w and cs = cs and e = e and all_cs = all_cs and s = s]
    posts_wrapper_for [of e all_cs cs s w] posts_monitor_for [of e all_cs cs s w]
  show ?thesis by blast
qed

theorem health_loop_attempts_witness:
  "should_check_container (env_const 1 (Found ''exited'')) ''container-1''
       (node PRIMARY [''container-1'' \<mapsto> 960]) (boot 1000)
     = (True, \<lparr> now = 1002, tick = 2, trace = [Get ''container-1'' (Found ''exited'')] \<rparr>)
   \<and> get_container_status (env_const 1 (Found ''exited'')) ''container-1''
       (node PRIMARY [''container-1'' \<mapsto> 960])
       \<lparr> now = 1002, tick = 2, trace = [Get ''container-1'' (Found ''exited'')] \<rparr>
     = (False, node PRIMARY [''container-1'' \<mapsto> 960],
        \<lparr> now = 1003, tick = 3, trace = replicate 2 (Get ''container-1'' (Found ''exited'')) \<rparr>)
   \<and> verify_container_health (env_const 1 (Found ''exited'')) ''container-1''
       (node PRIMARY [''container-1'' \<mapsto> 960])
       \<lparr> now = 1003, tick = 3, trace = replicate 2 (Get ''container-1'' (Found ''exited'')) \<rparr>
     = (False, node PRIMARY [''container-1'' \<mapsto> 960],
        \<lparr> now = 1020, tick = 10, trace = replicate 5 (Get ''container-1'' (Found ''exited'')) \<rparr>)
   \<and> wrapper_body (env_const 1 (Found ''exited'')) (containers SERVER1_CONFIG) ''container-1''
       (node PRIMARY [''container-1'' \<mapsto> 960]) (boot 1000)
     = (node BACKUP [''container-1'' \<mapsto> 960],
        \<lparr> now = 1029, tick = 19,
          trace = replicate 5 (Get ''container-1'' (Found ''exited''))
            @ [Get ''container-1'' (Found ''exited''), Stop ''container-1'' True,
               Get ''container-2'' (Found ''exited''), Stop ''container-2'' True,
               Post (Response 200),
               Get ''container-1'' (Found ''exited''), Stop ''container-1'' True,
               Get ''container-2'' (Found ''exited''), Stop ''container-2'' True] \<rparr>)
   \<and> wrapper_for (env_const 1 (Found ''exited'')) (containers SERVER1_CONFIG)
       [''container-1'', ''container-2''] (node PRIMARY [''container-1'' \<mapsto> 960]) (boot 1000)
     = (node BACKUP [''container-1'' \<mapsto> 960, ''container-2'' \<mapsto> 1033],
        \<lparr> now = 1034, tick = 24,
          trace = replicate 5 (Get ''container-1'' (Found ''exited''))
            @ [Get ''container-1'' (Found ''exited''), Stop ''container-1'' True,
               Get ''container-2'' (Found ''exited''), Stop ''container-2'' True,
               Post (Response 200),
               Get ''container-1'' (Found ''exited''), Stop ''container-1'' True,
               Get ''container-2'' (Found ''exited''), Stop ''container-2'' True,
               Get ''container-2'' (Found ''exited''),
               Get ''container-2'' (Found ''exited'')] \<rparr>)
   \<and> \<not> fst (time_time (env_const 1 (Found ''exited''))
              \<lparr> now = 1029, tick = 19,
                trace = replicate 5 (Get ''container-1'' (Found ''exited''))
                  @ [Get ''container-1'' (Found ''exited''), Stop ''container-1'' True,
                     Get ''container-2'' (Found ''exited''), Stop ''container-2'' True,
                     Post (Response 200),
                     Get ''container-1'' (Found ''exited''), Stop ''container-1'' True,
                     Get ''container-2'' (Found ''exited''), Stop ''container-2'' True] \<rparr>)
           - container_start_time (node BACKUP [''container-1'' \<mapsto> 960])
         < real_of_int (startup_grace_period (node BACKUP [''container-1'' \<mapsto> 960]))
   \<and> (\<exists>evs. trace (snd (wrapper_body (env_const 1 (Found ''exited''))
                (containers SERVER1_CONFIG) ''container-2''
                (node BACKUP [''container-1'' \<mapsto> 960])
                \<lparr> now = 1029, tick = 19,
                  trace = replicate 5 (Get ''container-1'' (Found ''exited''))
                    @ [Get ''container-1'' (Found ''exited''), Stop ''container-1'' True,
                       Get ''container-2'' (Found ''exited''), Stop ''container-2'' True,
                       Post (Response 200),
                       Get ''container-1'' (Found ''exited''), Stop ''container-1'' True,
                       Get ''container-2'' (Found ''exited''), Stop ''container-2'' True] \<rparr>))
          = (replicate 5 (Get ''container-1'' (Found ''exited''))
               @ [Get ''container-1'' (Found ''exited''), Stop ''container-1'' True,
                  Get ''container-2'' (Found ''exited''), Stop ''container-2'' True,
                  Post (Response 200),
                  Get ''container-1'' (Found ''exited''), Stop ''container-1'' True,
                  Get ''container-2'' (Found ''exited''), Stop ''container-2'' True])
              @ Get ''container-2'' (Found ''exited'') # evs)
   \<and> verify_container_health (env_const 1 (Found ''exited'')) ''container-1''
       (node PRIMARY [''container-1'' \<mapsto> 960]) (boot 1000)
     = (False, node PRIMARY [''container-1'' \<mapsto> 960],
        \<lparr> now = 1017, tick = 7, trace = replicate 3 (Get ''container-1'' (Found ''exited'')) \<rparr>)
   \<and> monitor_body (env_const 1 (Found ''exited'')) (containers SERVER1_CONFIG) ''container-1''
       (node PRIMARY [''container-1'' \<mapsto> 960]) (boot 1000)
     = primary_failure_path (env_const 1 (Found ''exited'')) (containers SERVER1_CONFIG)
         (node PRIMARY [''container-1'' \<mapsto> 960])
         \<lparr> now = 1017, tick = 7, trace = replicate 3 (Get ''container-1'' (Found ''exited'')) \<rparr>"
proof -
  let ?e = "env_const 1 (Found ''exited'')"
  let ?all = "containers SERVER1_CONFIG"
  let ?s = "node PRIMARY [''container-1'' \<mapsto> 960]"
  let ?sb = "node BACKUP [''container-1'' \<mapsto> 960]"
  let ?g = "Get ''container-1'' (Found ''exited'')"
  let ?fo = "[Get ''container-1'' (Found ''exited''), Stop ''container-1'' True,
              Get ''container-2'' (Found ''exited''), Stop ''container-2'' True,
              Post (Response 200),
              Get ''container-1'' (Found ''exited''), Stop ''container-1'' True,
              Get ''container-2'' (Found ''exited''), Stop ''container-2'' True]"
  let ?w1 = "\<lparr> now = 1002, tick = 2, trace = [?g] \<rparr>"
  let ?w2 = "\<lparr> now = 1003, tick = 3, trace = replicate 2 ?g \<rparr>"
  let ?w3 = "\<lparr> now = 1020, tick = 10, trace = replicate 5 ?g \<rparr>"
  let ?w4 = "\<lparr> now = 1017, tick = 7, trace = replicate 3 ?g \<rparr>"
  let ?wb = "\<lparr> now = 1029, tick = 19, trace = replicate 5 ?g @ ?fo \<rparr>"
  let ?w5 = "\<lparr> now = 1034, tick = 24,
              trace = replicate 5 ?g @ ?fo @ [Get ''container-2'' (Found ''exited''),
                                            Get ''container-2'' (Found ''exited'')] \<rparr>"
  have h1: "should_check_container ?e ''container-1'' ?s (boot 1000) = (True, ?w1)"
    by (simp add: should_check_container_def time_time_def docker_get_def elapse_def Let_def
          node_def env_const_def boot_def ContainerMonitor_init_def GENERAL_CONFIG_def)
  have h2: "get_container_status ?e ''container-1'' ?s ?w1 = (False, ?s, ?w2)"
    by (simp add: get_container_status_def docker_get_def elapse_def Let_def node_def
          env_const_def numeral_2_eq_2)
  have h3: "verify_container_health ?e ''container-1'' ?s ?w2 = (False, ?s, ?w3)"
    by (simp add: verify_container_health_def verify_grace_def range3 get_container_status_def
          verify_recheck_def defaultdict_getitem_def time_time_def docker_get_def elapse_def
          time_sleep_def Let_def node_def env_const_def ContainerMonitor_init_def
          GENERAL_CONFIG_def eval_nat_numeral)
  have h4: "verify_container_health ?e ''container-1'' ?s (boot 1000) = (False, ?s, ?w4)"
    by (simp add: verify_container_health_def verify_grace_def range3 get_container_status_def
          verify_recheck_def defaultdict_getitem_def time_time_def docker_get_def elapse_def
          time_sleep_def Let_def node_def env_const_def boot_def ContainerMonitor_init_def
          GENERAL_CONFIG_def eval_nat_numeral)
  have fp: "primary_failure_path ?e ?all ?s ?w3 = (?sb, ?wb)"
    by (simp add: primary_failure_path_def become_backup_def notify_other_server_def
          requests_post_def container_stop_def docker_get_def elapse_def Let_def node_def
          env_const_def ContainerMonitor_init_def SERVER1_CONFIG_def eval_nat_numeral)
  have ng: "\<not> fst (time_time ?e ?wb) - container_start_time ?sb
              < real_of_int (startup_grace_period ?sb)"
    by (simp add: time_time_def elapse_def Let_def node_def env_const_def
          ContainerMonitor_init_def GENERAL_CONFIG_def)
  have b2: "wrapper_body ?e ?all ''container-2'' ?sb ?wb
              = (node BACKUP [''container-1'' \<mapsto> 960, ''container-2'' \<mapsto> 1033], ?w5)"
    by (simp add: wrapper_body_def should_check_container_def verify_container_health_def
          verify_grace_def get_container_status_def defaultdict_getitem_def time_time_def
          docker_get_def elapse_def Let_def node_def env_const_def ContainerMonitor_init_def
          GENERAL_CONFIG_def eval_nat_numeral)
  note T = health_loop_attempts [where e = ?e and cn = "''container-1''" and s = ?s
      and w = "boot 1000" and ?w1.0 = ?w1 and ?s2.0 = ?s and ?w2.0 = ?w2 and ?s3.0 = ?s
      and ?w3.0 = ?w3 and all_cs = ?all and ?s4.0 = ?s and ?w4.0 = ?w4
      and cs = "[''container-1'', ''container-2'']" and rest = "[''container-2'']"
      and xs = "[''container-1'']" and ys = "[''container-2'']"
      and wb = ?wb and sb = ?sb and cnb = "''container-2''"]
  from T h1 h2 h3 fp have b1: "wrapper_body ?e ?all ''container-1'' ?s (boot 1000) = (?sb, ?wb)"
    by simp
  from T have "wrapper_for ?e ?all (''container-1'' # [''container-2'']) ?s (boot 1000)
      = (case wrapper_body ?e ?all ''container-1'' ?s (boot 1000) of
           (sa, wa) \<Rightarrow> wrapper_for ?e ?all [''container-2''] sa wa)"
    by blast
  with b1 b2 have wf: "wrapper_for ?e ?all [''container-1'', ''container-2''] ?s (boot 1000)
      = (node BACKUP [''container-1'' \<mapsto> 960, ''container-2'' \<mapsto> 1033], ?w5)"
    by simp
  from T h4 have mb: "monitor_body ?e ?all ''container-1'' ?s (boot 1000)
      = primary_failure_path ?e ?all ?s ?w4"
    by blast
  have ga: "get_answer ?e (Suc (tick ?wb)) ''container-2'' = Found ''exited''"
    by (simp add: env_const_def)
  from T ng have "\<exists>evs. trace (snd (wrapper_body ?e ?all ''container-2'' ?sb ?wb))
      = trace ?wb @ Get ''container-2'' (get_answer ?e (Suc (tick ?wb)) ''container-2'') # evs"
    by blast
  then have ck: "\<exists>evs. trace (snd (wrapper_body ?e ?all ''container-2'' ?sb ?wb))
      = (replicate 5 ?g @ ?fo) @ Get ''container-2'' (Found ''exited'') # evs"
    unfolding ga by simp
  from h1 h2 h3 h4 b1 wf mb ng ck show ?thesis by simp
qed

subsection \<open>Starting the workloads\<close>

lemma get_container_status_frame:
  assumes "get_container_status e cn s w = (r, s', w')"
  shows "\<exists>m. s' = s\<lparr> container_down_times := m \<rparr>"
proof -
  have "s' = s\<lparr> container_down_times := container_down_times s' \<rparr>"
    using assms
    by (auto simp: get_container_status_def Let_def split: get_result.splits if_splits prod.splits)
  then show ?thesis by blast
qed

lemma all_running_sweep_frame:
  "all_running_sweep e cs s w = (r, s', w') \<Longrightarrow> \<exists>m. s' = s\<lparr> container_down_times := m \<rparr>"
proof (induction cs arbitrary: s w)
  case Nil
  then have "s' = s\<lparr> container_down_times := container_down_times s \<rparr>" by simp
  then show ?case by blast
next
  case (Cons cn cs)
  obtain r1 s1 w1 where g: "get_container_status e cn s w = (r1, s1, w1)"
    by (metis prod_cases3)
  from get_container_status_frame [OF g] obtain m1 where
    m1: "s1 = s\<lparr> container_down_times := m1 \<rparr>" by blast
  show ?case
  proof (cases r1)
    case False
    with Cons.prems g have "s' = s1" by simp
    with m1 show ?thesis by blast
  next
    case True
    with Cons.prems g have "all_running_sweep e cs s1 w1 = (r, s', w')" by simp
    from Cons.IH [OF this] obtain m where "s' = s1\<lparr> container_down_times := m \<rparr>" by blast
    with m1 have "s' = s\<lparr> container_down_times := m \<rparr>" by simp
    then show ?thesis by blast
  qed
qed

lemma wait_loop_frame:
  assumes "wait_loop e cs timeout start_time s w = Some y"
  shows "\<exists>m. fst (snd y) = s\<lparr> container_down_times := m \<rparr>"
  using assms
proof (induction rule: wait_loop.raw_induct [rotated 1, consumes 1])
  case (1 wl e cs timeout start_time s w y)
  obtain t w1 where t: "time_time e w = (t, w1)" by (metis prod.exhaust)
  show ?case
  proof (cases "t - start_time < real_of_int timeout")
    case False
    with 1(2) t have "fst (snd y) = s\<lparr> container_down_times := container_down_times s \<rparr>"
      by auto
    then show ?thesis by blast
  next
    case True
    obtain r s2 w2 where sw: "all_running_sweep e cs s w1 = (r, s2, w2)"
      by (metis prod_cases3)
    from all_running_sweep_frame [OF sw] obtain m2 where
      m2: "s2 = s\<lparr> container_down_times := m2 \<rparr>" by blast
    show ?thesis
    proof (cases r)
      case True
      with 1(2) t sw \<open>t - start_time < real_of_int timeout\<close> have "fst (snd y) = s2" by auto
      with m2 show ?thesis by blast
    next
      case False
      with 1(2) t sw \<open>t - start_time < real_of_int timeout\<close>
      have "wl e cs timeout start_time s2 (time_sleep e 10 w2) = Some y" by simp
      from 1(1) [OF this] obtain m where "fst (snd y) = s2\<lparr> container_down_times := m \<rparr>"
        by blast
      with m2 have "fst (snd y) = s\<lparr> container_down_times := m \<rparr>" by simp
      then show ?thesis by blast
    qed
  qed
qed

lemma start_all_frame:
  assumes "start_loop e cs w = (True, w1)"
    and "start_all_containers e cs s w = Some (r, s', w')"
  shows "\<exists>m. s' = s\<lparr> container_start_time := fst (time_time e w1), container_down_times := m \<rparr>"
proof -
  obtain t w2 where t: "time_time e w1 = (t, w2)" by (metis prod.exhaust)
  obtain st w3 where st: "time_time e w2 = (st, w3)" by (metis prod.exhaust)
  have "wait_loop e cs 300 st (s\<lparr> container_start_time := t \<rparr>) w3 = Some (r, s', w')"
    using assms t st by (simp add: start_all_containers_def wait_for_containers_startup_def)
  from wait_loop_frame [OF this] t show ?thesis by auto
qed

text \<open>
  Claim C10. Whenever every \<^verbatim>\<open>get\<close> and \<^verbatim>\<open>start\<close> call of
  \<open>start_all_containers\<close> succeeds, the monitor it returns has
  \<open>container_start_time\<close> equal to the clock reading taken right after the start loop
  and before the wait, whatever the wait then returns, \<open>False\<close> after a timeout
  included; the startup grace period itself is unchanged. From then on, at every clock
  reading less than the startup grace period after that start time,
  \<open>should_check_container\<close> returns \<open>False\<close> for every workload without asking the
  driver, and a cycle of \<open>monitor_containers\<close> on a primary only sleeps.
\<close>

theorem start_all_restarts_grace:
  assumes "start_loop e cs w = (True, w1)"
    and "start_all_containers e cs s w = Some (r, s', w')"
  shows "container_start_time s' = fst (time_time e w1)
       \<and> startup_grace_period s' = startup_grace_period s
       \<and> (\<forall>cn wa. fst (time_time e wa) - container_start_time s'
                     < real_of_int (startup_grace_period s')
             \<longrightarrow> should_check_container e cn s' wa = (False, snd (time_time e wa)))
       \<and> (\<forall>cs2 wa. role s' = PRIMARY
                   \<and> fst (time_time e wa) - container_start_time s'
                     < real_of_int (startup_grace_period s')
             \<longrightarrow> monitor_containers_cycle e cs2 s' wa
                   = (s', time_sleep e 30 (snd (time_time e wa))))"
proof -
  from start_all_frame [OF assms] obtain m where
    "s' = s\<lparr> container_start_time := fst (time_time e w1), container_down_times := m \<rparr>"
    by blast
  then have a: "container_start_time s' = fst (time_time e w1)"
    and b: "startup_grace_period s' = startup_grace_period s" by simp_all
  have c: "should_check_container e cn s' wa = (False, snd (time_time e wa))"
    if "fst (time_time e wa) - container_start_time s' < real_of_int (startup_grace_period s')"
    for cn wa
    using that by (cases "time_time e wa") (simp add: should_check_container_def Let_def)
  have d: "monitor_containers_cycle e cs2 s' wa = (s', time_sleep e 30 (snd (time_time e wa)))"
    if "role s' = PRIMARY"
      and "fst (time_time e wa) - container_start_time s' < real_of_int (startup_grace_period s')"
    for cs2 wa
    using that by (cases "time_time e wa") (simp add: monitor_containers_cycle_def Let_def)
  from a b c d show ?thesis by blast
qed

theorem start_all_restarts_grace_witness:
  "start_loop (env_const 100 (Found ''created'')) [''container-1''] (boot 1000)
     = (True, \<lparr> now = 1200, tick = 2,
               trace = [Get ''container-1'' (Found ''created''), Start ''container-1'' True] \<rparr>)
   \<and> start_all_containers (env_const 100 (Found ''created'')) [''container-1'']
        (node PRIMARY Map.empty) (boot 1000)
     = Some (False,
             (node PRIMARY [''container-1'' \<mapsto> 1700])\<lparr> container_start_time := 1300 \<rparr>,
             \<lparr> now = 1910, tick = 9,
               trace = [Get ''container-1'' (Found ''created''), Start ''container-1'' True,
                        Get ''container-1'' (Found ''created'')] \<rparr>)
   \<and> fst (time_time (env_const 100 (Found ''created'')) \<lparr> now = 1210, tick = 3, trace = [] \<rparr>)
        - 1300 < real_of_int (startup_grace_period (node PRIMARY Map.empty))
   \<and> should_check_container (env_const 100 (Found ''created'')) ''container-1''
        ((node PRIMARY [''container-1'' \<mapsto> 1700])\<lparr> container_start_time := 1300 \<rparr>)
        \<lparr> now = 1210, tick = 3, trace = [] \<rparr>
     = (False, \<lparr> now = 1310, tick = 4, trace = [] \<rparr>)
   \<and> monitor_containers_cycle (env_const 100 (Found ''created'')) [''container-1'']
        ((node PRIMARY [''container-1'' \<mapsto> 1700])\<lparr> container_start_time := 1300 \<rparr>)
        \<lparr> now = 1210, tick = 3, trace = [] \<rparr>
     = ((node PRIMARY [''container-1'' \<mapsto> 1700])\<lparr> container_start_time := 1300 \<rparr>,
        \<lparr> now = 1440, tick = 5, trace = [] \<rparr>)"
proof -
  let ?e = "env_const 100 (Found ''created'')"
  let ?tr = "[Get ''container-1'' (Found ''created''), Start ''container-1'' True]"
  let ?s1 = "(node PRIMARY Map.empty)\<lparr> container_start_time := 1300 \<rparr>"
  let ?s2 = "(node PRIMARY [''container-1'' \<mapsto> 1700])\<lparr> container_start_time := 1300 \<rparr>"
  let ?w9 = "\<lparr> now = 1910, tick = 9, trace = ?tr @ [Get ''container-1'' (Found ''created'')] \<rparr>"
  let ?wa = "\<lparr> now = 1210, tick = 3, trace = [] \<rparr>"
  have h1: "start_loop ?e [''container-1''] (boot 1000)
              = (True, \<lparr> now = 1200, tick = 2, trace = ?tr \<rparr>)"
    by (simp add: docker_get_def container_start_def elapse_def env_const_def boot_def Let_def)
  have t1: "time_time ?e \<lparr> now = 1200, tick = 2, trace = ?tr \<rparr>
              = (1300, \<lparr> now = 1300, tick = 3, trace = ?tr \<rparr>)"
    by (simp add: time_time_def elapse_def env_const_def Let_def)
  have t2: "time_time ?e \<lparr> now = 1300, tick = 3, trace = ?tr \<rparr>
              = (1400, \<lparr> now = 1400, tick = 4, trace = ?tr \<rparr>)"
    by (simp add: time_time_def elapse_def env_const_def Let_def)
  have r2: "wait_loop ?e [''container-1''] 300 1400 s
              \<lparr> now = 1810, tick = 8,
                trace = [Get ''container-1'' (Found ''created''), Start ''container-1'' True,
                         Get ''container-1'' (Found ''created'')] \<rparr>
            = Some (False, s, ?w9)" for s
    by (subst wait_loop.simps) (simp add: time_time_def elapse_def env_const_def Let_def)
  have r1: "wait_loop ?e [''container-1''] 300 1400 ?s1 \<lparr> now = 1400, tick = 4, trace = ?tr \<rparr>
            = Some (False, ?s2, ?w9)"
    by (subst wait_loop.simps)
      (simp add: get_container_status_def docker_get_def time_time_def time_sleep_def elapse_def
        env_const_def node_def ContainerMonitor_init_def Let_def
        r2 [unfolded env_const_def, simplified])
  have h2: "start_all_containers ?e [''container-1''] (node PRIMARY Map.empty) (boot 1000)
              = Some (False, ?s2, ?w9)"
    unfolding start_all_containers_def wait_for_containers_startup_def
    by (simp only: h1 t1 t2 prod.case if_True r1)
  have g: "fst (time_time ?e ?wa) - 1300 < real_of_int (startup_grace_period ?s2)"
    by (simp add: time_time_def elapse_def env_const_def node_def ContainerMonitor_init_def
          GENERAL_CONFIG_def Let_def)
  have r: "role ?s2 = PRIMARY" by (simp add: node_def ContainerMonitor_init_def)
  have c: "container_start_time ?s2 = 1300" by simp
  from start_all_restarts_grace [OF h1 h2]
  have "should_check_container ?e ''container-1'' ?s2 ?wa = (False, snd (time_time ?e ?wa))
      \<and> monitor_containers_cycle ?e [''container-1''] ?s2 ?wa
          = (?s2, time_sleep ?e 30 (snd (time_time ?e ?wa)))"
    using g r c by simp
  moreover have "snd (time_time ?e ?wa) = \<lparr> now = 1310, tick = 4, trace = [] \<rparr>"
    by (simp add: time_time_def elapse_def env_const_def Let_def)
  moreover have "time_sleep ?e 30 \<lparr> now = 1310, tick = 4, trace = [] \<rparr>
                   = \<lparr> now = 1440, tick = 5, trace = [] \<rparr>"
    by (simp add: time_sleep_def elapse_def env_const_def)
  ultimately show ?thesis using h1 h2 g
    by (simp add: node_def ContainerMonitor_init_def)
qed

subsection \<open>Becoming primary\<close>













lemma all_running_sweep_iff:
  "fst (all_running_sweep e cs s w)
     \<longleftrightarrow> (\<forall>i<length cs. get_answer e (tick w + i) (cs ! i) = Found ''running'')"
proof (induction cs arbitrary: s w)
  case Nil
  show ?case by simp
next
  case (Cons cn cs)
  obtain r1 s1 w1 where g: "get_container_status e cn s w = (r1, s1, w1)"
    by (metis prod_cases3)
  have r1: "r1 \<longleftrightarrow> get_answer e (tick w) cn = Found ''running''"
    using g by (auto simp: get_container_status_def docker_get_def Let_def
                  split: get_result.splits if_splits prod.splits)
  have tk: "r1 \<Longrightarrow> tick w1 = Suc (tick w)"
    using g by (auto simp: get_container_status_def docker_get_def elapse_def Let_def
                  split: get_result.splits if_splits prod.splits)
  have split: "(\<forall>i<length (cn # cs). get_answer e (tick w + i) ((cn # cs) ! i) = Found ''running'')
      \<longleftrightarrow> get_answer e (tick w) cn = Found ''running''
          \<and> (\<forall>i<length cs. get_answer e (Suc (tick w) + i) (cs ! i) = Found ''running'')"
    by (auto simp: less_Suc_eq_0_disj)
  show ?case
  proof (cases r1)
    case False
    with g r1 split show ?thesis by simp
  next
    case True
    with g have "fst (all_running_sweep e (cn # cs) s w) = fst (all_running_sweep e cs s1 w1)"
      by simp
    also have "\<dots> \<longleftrightarrow> (\<forall>i<length cs. get_answer e (tick w1 + i) (cs ! i) = Found ''running'')"
      by (rule Cons.IH)
    finally show ?thesis using True r1 tk split by simp
  qed
qed



end
